theory Spec2Isabelle
  imports Main
begin

section \<open>Data model (src/server.ts, type definitions)\<close>

text \<open>
  The string-literal unions of the source are datatypes, the object types are records.
  The field \<open>id\<close> of the source is written \<open>avatar_id\<close> and \<open>mem_id\<close>, the field
  \<open>type\<close> of a memory \<open>mem_type\<close>, since \<open>id\<close> is the identity function of HOL.
\<close>

datatype Tone = Casual | Professional | Playful | Technical

datatype MemoryType = Task | Preference | Note

record AvatarProfile =
  avatar_id :: string
  displayName :: string
  bio :: string
  tone :: Tone
  expertiseTags :: "string list"

record MemoryItem =
  mem_id :: string
  createdAt :: string
  mem_type :: MemoryType
  content :: string

record AgentState =
  avatar :: "AvatarProfile option"
  memories :: "MemoryItem list"

text \<open>\<open>Partial<AvatarProfile>\<close>: every field may be absent (\<open>undefined\<close>).\<close>

record AvatarProfileInput =
  in_id :: "string option"
  in_displayName :: "string option"
  in_bio :: "string option"
  in_tone :: "Tone option"
  in_expertiseTags :: "string list option"

definition initialState :: AgentState where
  "initialState = \<lparr>avatar = None, memories = []\<rparr>"

section \<open>JavaScript helpers\<close>

text \<open>
  \<open>xs.slice(-n)\<close> for a positive \<open>n\<close>: the start index is \<open>max (length xs - n) 0\<close>,
  which is the truncating subtraction of \<open>nat\<close>.
\<close>

definition slice_last :: "nat \<Rightarrow> 'a list \<Rightarrow> 'a list" where
  "slice_last n xs = drop (length xs - n) xs"

text \<open>
  \<open>a || b\<close> on an optional string: \<open>undefined\<close> and the empty string are falsy.
  On an optional tone or array every present value is truthy (the four tones are
  non-empty strings, and every array, also the empty one, is an object).
\<close>

definition or_string :: "string option \<Rightarrow> string \<Rightarrow> string" where
  "or_string a b = (case a of None \<Rightarrow> b | Some s \<Rightarrow> if s = [] then b else s)"

definition or_truthy :: "'a option \<Rightarrow> 'a \<Rightarrow> 'a" where
  "or_truthy a b = (case a of None \<Rightarrow> b | Some v \<Rightarrow> v)"

section \<open>State store\<close>

subsection \<open>onStart\<close>

text \<open>
  The persisted slot \<open>this.state\<close> as \<open>onStart\<close> may find it: \<open>undefined\<close>, \<open>null\<close>,
  a value that is not an object (with its truthiness), or an object with an optional
  avatar and a \<open>memories\<close> property that is an array or anything else.
\<close>

datatype RawMemories = MemArray "MemoryItem list" | MemNotArray

datatype RawState =
    RawUndefined
  | RawNull
  | RawPrimitive bool
  | RawObject "AvatarProfile option" RawMemories

datatype js_error = TypeError

definition js_falsy :: "RawState \<Rightarrow> bool" where
  "js_falsy s = (case s of RawUndefined \<Rightarrow> True | RawNull \<Rightarrow> True
                 | RawPrimitive t \<Rightarrow> \<not> t | RawObject _ _ \<Rightarrow> False)"

definition typeof_object :: "RawState \<Rightarrow> bool" where
  "typeof_object s = (case s of RawNull \<Rightarrow> True | RawObject _ _ \<Rightarrow> True | _ \<Rightarrow> False)"

definition isArray :: "RawMemories \<Rightarrow> bool" where
  "isArray m = (case m of MemArray _ \<Rightarrow> True | MemNotArray \<Rightarrow> False)"

text \<open>
  The two \<open>if\<close> statements of \<open>onStart\<close>, in order; \<open>setState\<close> replaces the slot.
  Reading \<open>this.state.memories\<close> of \<open>undefined\<close> or \<open>null\<close> raises a TypeError, of
  another non-object it is \<open>undefined\<close>.
\<close>

definition onStart :: "RawState \<Rightarrow> js_error + RawState" where
  "onStart s0 =
     (let s1 = (if js_falsy s0 \<or> \<not> typeof_object s0
                then RawObject None (MemArray []) else s0)
      in case s1 of
           RawUndefined \<Rightarrow> Inl TypeError
         | RawNull \<Rightarrow> Inl TypeError
         | RawPrimitive t \<Rightarrow> Inr (RawObject None (MemArray []))
         | RawObject a m \<Rightarrow>
             (if \<not> isArray m then Inr (RawObject a (MemArray [])) else Inr s1))"

subsection \<open>getAvatarState, saveAvatarProfile, saveMemory\<close>

definition getAvatarState :: "AgentState \<Rightarrow> AgentState \<times> AgentState" where
  "getAvatarState s = (s, \<lparr>avatar = avatar s, memories = slice_last 5 (memories s)\<rparr>)"

text \<open>
  \<open>generateId()\<close> is a collaborator: its value is the parameter \<open>fresh\<close>, read only
  where the source calls it. The result is the new state and the returned profile.
\<close>

definition saveAvatarProfile ::
  "string \<Rightarrow> AvatarProfileInput \<Rightarrow> AgentState \<Rightarrow> AgentState \<times> AvatarProfile" where
  "saveAvatarProfile fresh profileInput s =
     (let currentAvatar = avatar s;
          updatedAvatar = \<lparr>
            avatar_id = or_string (map_option avatar_id currentAvatar) fresh,
            displayName = or_string (in_displayName profileInput)
                            (or_string (map_option displayName currentAvatar) ''Unnamed Avatar''),
            bio = or_string (in_bio profileInput)
                    (or_string (map_option bio currentAvatar) ''''),
            tone = or_truthy (in_tone profileInput)
                     (or_truthy (map_option tone currentAvatar) Casual),
            expertiseTags = or_truthy (in_expertiseTags profileInput)
                              (or_truthy (map_option expertiseTags currentAvatar) [])\<rparr>
      in (s\<lparr>avatar := Some updatedAvatar\<rparr>, updatedAvatar))"

text \<open>
  \<open>generateId()\<close> and \<open>new Date().toISOString()\<close> are the parameters \<open>fresh\<close> and
  \<open>now\<close>. The result is the new state and the returned list.
\<close>

definition saveMemory ::
  "string \<Rightarrow> string \<Rightarrow> MemoryType \<Rightarrow> string \<Rightarrow> AgentState \<Rightarrow> AgentState \<times> MemoryItem list" where
  "saveMemory fresh now ty c s =
     (let newMemory = \<lparr>mem_id = fresh, createdAt = now, mem_type = ty, content = c\<rparr>;
          appended = memories s @ [newMemory];
          updatedMemories = (if length appended > 50 then slice_last 50 appended else appended)
      in (s\<lparr>memories := updatedMemories\<rparr>, slice_last 5 updatedMemories))"

text \<open>A sequence of \<open>saveMemory\<close> calls, each with its generated id, time, type and content.\<close>

type_synonym save_call = "string \<times> string \<times> MemoryType \<times> string"

definition item_of :: "save_call \<Rightarrow> MemoryItem" where
  "item_of call = (case call of (fresh, now, ty, c) \<Rightarrow>
     \<lparr>mem_id = fresh, createdAt = now, mem_type = ty, content = c\<rparr>)"

fun saveMemories :: "save_call list \<Rightarrow> AgentState \<Rightarrow> AgentState" where
  "saveMemories [] s = s"
| "saveMemories ((fresh, now, ty, c) # calls) s =
     saveMemories calls (fst (saveMemory fresh now ty c s))"

section \<open>Document index and matcher\<close>

subsection \<open>Strings\<close>

text \<open>
  The matcher looks inside its strings, so here a string is what it is in ECMAScript:
  the list of its UTF-16 code units, each a number below 65536. \<open>length\<close> counts code
  units, as \<open>word.length\<close> does. \<open>ascii\<close> gives the code units of a literal of ASCII
  characters; every literal of \<open>researchWeb\<close> and of the catalog is one, but for the
  emoji of the snippet. (The state store and the context builder only pass their
  strings on or test them for emptiness; there a string is a list of characters.)
\<close>

type_synonym jsstring = "nat list"

definition ascii :: "string \<Rightarrow> jsstring" where
  "ascii s = map of_char s"

text \<open>
  The class \<open>\s\<close> of an ECMAScript regular expression: the white space code points
  (tab, vertical tab, form feed, space, no-break space, U+1680, U+2000 to U+200A,
  U+202F, U+205F, U+3000, U+FEFF) and the line terminators (line feed, carriage
  return, U+2028, U+2029). All of them are single code units.
\<close>

definition is_whitespace :: "nat \<Rightarrow> bool" where
  "is_whitespace c =
     (c \<in> set [0x0009, 0x000A, 0x000B, 0x000C, 0x000D, 0x0020, 0x00A0, 0x1680,
                0x2000, 0x2001, 0x2002, 0x2003, 0x2004, 0x2005, 0x2006, 0x2007,
                0x2008, 0x2009, 0x200A, 0x2028, 0x2029, 0x202F, 0x205F, 0x3000, 0xFEFF])"

text \<open>
  \<open>String.prototype.toLowerCase\<close> is a built-in that follows the Unicode case
  mappings. It is not written out: every function below that calls it takes it as the
  parameter \<open>toLowerCase\<close>, and what is proved holds for whatever function it is.
  \<open>toLowerCase_ascii\<close> is what the built-in does on a string whose letters are all
  ASCII letters (\<open>A\<close> to \<open>Z\<close> become \<open>a\<close> to \<open>z\<close>, every other code unit stays); it
  stands in for the parameter where a theorem is run on such a query.
\<close>

definition toLowerCase_ascii :: "jsstring \<Rightarrow> jsstring" where
  "toLowerCase_ascii s = map (\<lambda>c. if 65 \<le> c \<and> c \<le> 90 then c + 32 else c) s"

text \<open>\<open>s.includes(t)\<close>: \<open>t\<close> occurs in \<open>s\<close> as a contiguous run of code units.\<close>

fun startsWith :: "'a list \<Rightarrow> 'a list \<Rightarrow> bool" where
  "startsWith s [] = True"
| "startsWith [] (c # t) = False"
| "startsWith (a # s) (c # t) = (a = c \<and> startsWith s t)"

fun str_includes :: "'a list \<Rightarrow> 'a list \<Rightarrow> bool" where
  "str_includes [] t = (t = [])"
| "str_includes (a # s) t = (startsWith (a # s) t \<or> str_includes s t)"

text \<open>
  \<open>s.split(/\s+/)\<close>: the pieces between the maximal runs of white space. A run at
  the start or at the end leaves an empty piece there, and the empty string splits
  into one empty piece. \<open>cur\<close> is the piece being read, \<open>in_run\<close> says that the last
  code unit read was white space.
\<close>

fun split_from :: "jsstring \<Rightarrow> bool \<Rightarrow> jsstring \<Rightarrow> jsstring list" where
  "split_from cur in_run [] = [cur]"
| "split_from cur in_run (c # cs) =
     (if is_whitespace c
      then (if in_run then split_from cur True cs else cur # split_from [] True cs)
      else split_from (cur @ [c]) False cs)"

definition split_ws :: "jsstring \<Rightarrow> jsstring list" where
  "split_ws s = split_from [] False s"

subsection \<open>The catalog percifyDocs\<close>

text \<open>
  The values of the record \<open>percifyDocs\<close>; the field \<open>content\<close> of the source is
  \<open>doc_content\<close> here. \<open>Object.entries\<close> lists the keys in the order they are written.
\<close>

record Doc =
  title :: jsstring
  doc_content :: jsstring
  path :: jsstring

definition doc_avatar :: Doc where
  \<open>doc_avatar = \<lparr>
     title = ascii ''Avatar Setup Guide'',
     doc_content = ascii ''Percify Avatar Co-Pilot lets you create a personalized AI persona. Your avatar includes: displayName (your preferred name), bio (a short description), tone (casual/professional/playful/technical), and expertiseTags (your areas of expertise). Use the command 'create my avatar as [name]' or 'set my tone to professional' to customize your experience. Avatars persist across sessions using Cloudflare Durable Objects.'',
     path = ascii ''/docs/avatar-guide''\<rparr>\<close>

definition doc_memory :: Doc where
  \<open>doc_memory = \<lparr>
     title = ascii ''Memory System'',
     doc_content = ascii ''Percify stores three types of memories: tasks (things to do), preferences (your likes/settings), and notes (general information). Say 'remember that I prefer dark mode' or 'note: meeting at 3pm'. Memories are stored persistently and limited to 50 items with automatic cleanup of oldest entries. Access recent memories anytime - they're included in your avatar context.'',
     path = ascii ''/docs/memory-system''\<rparr>\<close>

definition doc_tone :: Doc where
  \<open>doc_tone = \<lparr>
     title = ascii ''Tone Customization'',
     doc_content = ascii ''Choose from 4 tone styles: CASUAL (friendly, relaxed, conversational), PROFESSIONAL (formal, precise, business-like), PLAYFUL (fun, energetic, humorous), TECHNICAL (detailed, accurate, uses technical terms). Change anytime with 'set my tone to [style]'. Your tone affects how Percify responds to all your messages.'',
     path = ascii ''/docs/customization/tone''\<rparr>\<close>

definition doc_tools :: Doc where
  \<open>doc_tools = \<lparr>
     title = ascii ''Available Tools'',
     doc_content = ascii ''Percify has 4 core tools: 1) saveAvatarProfile - Create/update your avatar (name, bio, tone, expertise). 2) saveMemory - Store preferences, tasks, or notes. 3) researchWeb - Look up information from Percify docs. 4) getAvatarState - View current avatar and recent memories. Plus scheduling tools for reminders and recurring tasks.'',
     path = ascii ''/docs/tools-reference''\<rparr>\<close>

definition doc_schedule :: Doc where
  \<open>doc_schedule = \<lparr>
     title = ascii ''Scheduling & Reminders'',
     doc_content = ascii ''Schedule tasks with natural language: 'remind me in 1 hour to check email' or 'schedule daily standup at 9am'. Percify uses Cloudflare's scheduling system for reliable task execution. View scheduled tasks with 'show my schedules' and cancel with 'cancel schedule [id]'.'',
     path = ascii ''/docs/scheduling''\<rparr>\<close>

definition doc_getting_started :: Doc where
  \<open>doc_getting_started = \<lparr>
     title = ascii ''Getting Started'',
     doc_content = ascii ''Welcome to Percify! Start by creating your avatar: tell me your name and preferred tone. Then save some preferences so I remember your style. Try: '1) Create avatar named Alex with professional tone, 2) Remember I prefer TypeScript, 3) Research how memory works'. Your data persists across sessions!'',
     path = ascii ''/docs/getting-started''\<rparr>\<close>

definition doc_architecture :: Doc where
  \<open>doc_architecture = \<lparr>
     title = ascii ''Technical Architecture'',
     doc_content = ascii ''Percify runs on Cloudflare's edge network using: Workers AI (Llama 3.3 70B model for inference), Durable Objects (persistent state storage), WebSockets (real-time chat), and the Agents SDK (orchestration). State is stored in SQLite within Durable Objects for low-latency global access.'',
     path = ascii ''/docs/architecture''\<rparr>\<close>

definition doc_api :: Doc where
  \<open>doc_api = \<lparr>
     title = ascii ''API Reference'',
     doc_content = ascii ''REST Endpoints: GET /api/avatar-state returns current avatar and last 5 memories. GET /check-open-ai-key returns provider status. WebSocket connects at /chat for real-time messaging. All endpoints return JSON. Authentication is handled per-session via Durable Object IDs.'',
     path = ascii ''/docs/api-reference''\<rparr>\<close>

definition doc_expertise :: Doc where
  \<open>doc_expertise = \<lparr>
     title = ascii ''Expertise Tags'',
     doc_content = ascii ''Add expertise tags to your avatar to help Percify understand your background. Examples: 'TypeScript', 'React', 'DevOps', 'Machine Learning'. Set with 'my expertise is [tag1], [tag2], [tag3]'. Tags help contextualize responses and can be used for personalized recommendations.'',
     path = ascii ''/docs/customization/expertise''\<rparr>\<close>

definition doc_troubleshooting :: Doc where
  \<open>doc_troubleshooting = \<lparr>
     title = ascii ''Troubleshooting'',
     doc_content = ascii ''Common issues: 1) Avatar not saving? Ensure you provide at least a name. 2) Memories full? Oldest are auto-deleted after 50 items. 3) Slow responses? Check network connection. 4) Wrong tone? Say 'change tone to [style]'. 5) Reset everything? Say 'reset my avatar' to start fresh.'',
     path = ascii ''/docs/troubleshooting''\<rparr>\<close>

definition percifyDocs :: "(jsstring \<times> Doc) list" where
  "percifyDocs =
     [(ascii ''avatar'', doc_avatar),
      (ascii ''memory'', doc_memory),
      (ascii ''tone'', doc_tone),
      (ascii ''tools'', doc_tools),
      (ascii ''schedule'', doc_schedule),
      (ascii ''getting_started'', doc_getting_started),
      (ascii ''architecture'', doc_architecture),
      (ascii ''api'', doc_api),
      (ascii ''expertise'', doc_expertise),
      (ascii ''troubleshooting'', doc_troubleshooting)]"

subsection \<open>researchWeb\<close>

record ResearchResult =
  query :: jsstring
  snippet :: jsstring
  sourceUrl :: jsstring

text \<open>The emoji U+1F4DA that opens the snippet: a surrogate pair.\<close>

definition books_emoji :: jsstring where
  "books_emoji = [0xD83D, 0xDCDA]"

text \<open>The inner loop over \<open>queryWords\<close>, threading \<open>score\<close>.\<close>

fun words_loop ::
  "(jsstring \<Rightarrow> jsstring) \<Rightarrow> jsstring \<Rightarrow> Doc \<Rightarrow> jsstring list \<Rightarrow> nat \<Rightarrow> nat" where
  "words_loop toLowerCase key doc [] score = score"
| "words_loop toLowerCase key doc (word # queryWords) score =
     (if length word > 2
      then (let score1 = (if str_includes key word then score + 2 else score);
                score2 = (if str_includes (toLowerCase (doc_content doc)) word
                          then score1 + 1 else score1)
            in words_loop toLowerCase key doc queryWords score2)
      else words_loop toLowerCase key doc queryWords score)"

text \<open>The body of the outer loop up to the comparison: the score of one entry.\<close>

definition entry_score ::
  "(jsstring \<Rightarrow> jsstring) \<Rightarrow> jsstring \<Rightarrow> jsstring \<Rightarrow> Doc \<Rightarrow> nat" where
  "entry_score toLowerCase queryLower key doc =
     (let score1 = (if str_includes queryLower key then 0 + 10 else 0);
          score2 = (if str_includes (toLowerCase (title doc)) queryLower
                    then score1 + 5 else score1);
          score3 = (if str_includes (toLowerCase (doc_content doc)) queryLower
                    then score2 + 3 else score2);
          queryWords = split_ws queryLower
      in words_loop toLowerCase key doc queryWords score3)"

text \<open>The outer loop over the entries, threading \<open>bestMatch\<close> (\<open>None\<close> is \<open>null\<close>) and \<open>matchScore\<close>.\<close>

fun docs_loop ::
  "(jsstring \<Rightarrow> jsstring) \<Rightarrow> jsstring \<Rightarrow> (jsstring \<times> Doc) list
     \<Rightarrow> Doc option \<times> nat \<Rightarrow> Doc option \<times> nat" where
  "docs_loop toLowerCase queryLower [] (bestMatch, matchScore) = (bestMatch, matchScore)"
| "docs_loop toLowerCase queryLower ((key, doc) # entries) (bestMatch, matchScore) =
     (let score = entry_score toLowerCase queryLower key doc
      in if score > matchScore
         then docs_loop toLowerCase queryLower entries (Some doc, score)
         else docs_loop toLowerCase queryLower entries (bestMatch, matchScore))"

definition render_result :: "jsstring \<Rightarrow> Doc \<Rightarrow> ResearchResult" where
  "render_result q bestMatch =
     \<lparr>query = q,
      snippet = books_emoji @ ascii '' **'' @ title bestMatch
                  @ ascii ''** (docs.percify.io)\<newline>\<newline>'' @ doc_content bestMatch,
      sourceUrl = ascii ''https://docs.percify.io'' @ path bestMatch\<rparr>"

text \<open>
  \<open>researchWeb\<close> is a method of the agent: it is given the agent's state and returns
  it with the result, so that what it does to the state can be stated.
\<close>

definition researchWeb ::
  "(jsstring \<Rightarrow> jsstring) \<Rightarrow> jsstring \<Rightarrow> AgentState \<Rightarrow> AgentState \<times> ResearchResult" where
  "researchWeb toLowerCase q s =
     (let queryLower = toLowerCase q;
          (bestMatch, matchScore) = docs_loop toLowerCase queryLower percifyDocs (None, 0);
          best = (case bestMatch of
                    None \<Rightarrow> doc_getting_started
                  | Some doc \<Rightarrow> if matchScore < 2 then doc_getting_started else doc)
      in (s, render_result q best))"

subsection \<open>The points of a token\<close>

text \<open>
  The points one token of the query earns an entry: 2 if the key contains it, 1 if the
  lower-cased content contains it. Used only to state the score as a sum.
\<close>

definition token_points ::
  "(jsstring \<Rightarrow> jsstring) \<Rightarrow> jsstring \<Rightarrow> Doc \<Rightarrow> jsstring \<Rightarrow> nat" where
  "token_points toLowerCase key doc tok =
     (if str_includes key tok then 2 else 0)
       + (if str_includes (toLowerCase (doc_content doc)) tok then 1 else 0)"

subsection \<open>A query with a no-break space\<close>

text \<open>
  The query \<open>tasks\<close>, U+00A0, \<open>notes\<close>: the no-break space is white space for \<open>\s\<close>
  though it is not an ASCII character. Used as an example.
\<close>

definition tasks_nbsp_notes :: jsstring where
  "tasks_nbsp_notes = ascii ''tasks'' @ [0x00A0] @ ascii ''notes''"

section \<open>Context builder\<close>

definition tone_name :: "Tone \<Rightarrow> string" where
  "tone_name t = (case t of Casual \<Rightarrow> ''casual'' | Professional \<Rightarrow> ''professional''
                  | Playful \<Rightarrow> ''playful'' | Technical \<Rightarrow> ''technical'')"

definition type_name :: "MemoryType \<Rightarrow> string" where
  "type_name t = (case t of Task \<Rightarrow> ''task'' | Preference \<Rightarrow> ''preference'' | Note \<Rightarrow> ''note'')"

text \<open>\<open>xs.join(sep)\<close> on an array of strings.\<close>

fun join :: "string \<Rightarrow> string list \<Rightarrow> string" where
  "join sep [] = []"
| "join sep [x] = x"
| "join sep (x # y # ys) = x @ sep @ join sep (y # ys)"

text \<open>
  The loop over \<open>recentMemories\<close>, appending one line to \<open>context\<close> for each.
  \<open>new Date(mem.createdAt).toLocaleDateString()\<close> depends on the locale of the host:
  it is the parameter \<open>toLocaleDateString\<close>.
\<close>

fun memories_loop :: "(string \<Rightarrow> string) \<Rightarrow> MemoryItem list \<Rightarrow> string \<Rightarrow> string" where
  "memories_loop toLocaleDateString [] context = context"
| "memories_loop toLocaleDateString (mem # recentMemories) context =
     memories_loop toLocaleDateString recentMemories
       (context @ ''- ['' @ type_name (mem_type mem) @ ''] '' @ content mem
          @ '' ('' @ toLocaleDateString (createdAt mem) @ '')\<newline>'')"

definition buildContextString :: "(string \<Rightarrow> string) \<Rightarrow> AgentState \<Rightarrow> string" where
  "buildContextString toLocaleDateString s =
     (let recentMemories = slice_last 3 (memories s);
          context0 = ''## Current Avatar State\<newline>'';
          context1 =
            (case avatar s of
               Some a \<Rightarrow>
                 context0
                   @ (''- Name: '' @ displayName a @ ''\<newline>'')
                   @ (''- Bio: '' @ or_string (Some (bio a)) ''Not set'' @ ''\<newline>'')
                   @ (''- Tone: '' @ tone_name (tone a) @ ''\<newline>'')
                   @ (''- Expertise: ''
                        @ (if length (expertiseTags a) > 0 then join '', '' (expertiseTags a)
                           else ''None specified'')
                        @ ''\<newline>'')
             | None \<Rightarrow>
                 context0 @ ''- No avatar profile set yet. The user can create one.\<newline>'');
          context2 = context1 @ ''\<newline>## Recent Memories\<newline>''
      in if length recentMemories > 0
         then memories_loop toLocaleDateString recentMemories context2
         else context2 @ ''- No memories stored yet.\<newline>'')"

definition toneInstructions :: "Tone \<Rightarrow> string" where
  "toneInstructions t =
     (case t of
        Casual \<Rightarrow> ''Be friendly, relaxed, and approachable. Use conversational language.''
      | Professional \<Rightarrow> ''Be formal, precise, and business-like. Maintain a professional demeanor.''
      | Playful \<Rightarrow> ''Be fun, energetic, and use humor when appropriate. Keep things light.''
      | Technical \<Rightarrow> ''Be detailed, accurate, and use technical terminology. Focus on precision.'')"

text \<open>
  The fixed text of the template of \<open>getSystemPrompt\<close>: \<open>prompt_head\<close> up to the
  tone, \<open>prompt_rest\<close> from the end of the tone line to the schedule prompt.
\<close>

definition prompt_head :: string where
  \<open>prompt_head =
       ''You are Percify Avatar Co-Pilot, a friendly AI assistant that remembers each user's persona and preferences.\<newline>''
     @ ''\<newline>''
     @ ''## IMPORTANT: Be Helpful and Conversational\<newline>''
     @ ''- ALWAYS respond helpfully to ANY message, even simple greetings like "hey" or "hello"\<newline>''
     @ ''- For greetings, introduce yourself warmly and explain what you can do\<newline>''
     @ ''- NEVER ask for "more details" unless absolutely necessary - be proactive and helpful\<newline>''
     @ ''- If unsure what the user wants, offer suggestions instead of asking for clarification\<newline>''
     @ ''\<newline>''
     @ ''## Your Capabilities\<newline>''
     @ ''1. **Avatar Setup**: Help users create their AI persona (name, bio, tone, expertise)\<newline>''
     @ ''2. **Memory**: Remember preferences, tasks, and notes for the user\<newline>''
     @ ''3. **Research**: Look up information from docs.percify.io (official Percify documentation)\<newline>''
     @ ''4. **Chat**: Have friendly conversations\<newline>''
     @ ''\<newline>''
     @ ''## How to Respond\<newline>''
     @ ''- For "hey", "hello", "hi": Greet warmly and introduce your capabilities\<newline>''
     @ ''- For "create avatar", "set up avatar", etc.: Use the saveAvatarProfile tool to help them create one\<newline>''
     @ ''- For "remember X", "note that X": Use the saveMemory tool\<newline>''
     @ ''- For "research X", "look up X", "what is percify", "how does X work": Use the researchWeb tool to search docs.percify.io\<newline>''
     @ ''- For questions about Percify features: ALWAYS use researchWeb to fetch from docs.percify.io\<newline>''
     @ ''- Maintain the avatar's tone (''\<close>

definition prompt_rest :: string where
  \<open>prompt_rest =
       ''\<newline>''
     @ ''\<newline>''
     @ ''## Example Responses\<newline>''
     @ ''- User: "hey" ''
     @ [CHR 0xE2, CHR 0x86, CHR 0x92]
     @ '' "Hey there! ''
     @ [CHR 0xF0, CHR 0x9F, CHR 0x91, CHR 0x8B]
     @ '' I'm Percify, your AI co-pilot! I can help you create a personalized avatar, remember your preferences, and look up our docs. Want to set up your avatar? Just tell me your name and what kind of tone you prefer (casual, professional, playful, or technical)!"\<newline>''
     @ ''- User: "create an avatar" ''
     @ [CHR 0xE2, CHR 0x86, CHR 0x92]
     @ '' Use saveAvatarProfile tool with a friendly default, then confirm\<newline>''
     @ ''- User: "I prefer TypeScript" ''
     @ [CHR 0xE2, CHR 0x86, CHR 0x92]
     @ '' Use saveMemory tool with type "preference"\<newline>''
     @ ''- User: "what is percify" ''
     @ [CHR 0xE2, CHR 0x86, CHR 0x92]
     @ '' Use researchWeb tool to fetch from docs.percify.io\<newline>''
     @ ''- User: "how do memories work" ''
     @ [CHR 0xE2, CHR 0x86, CHR 0x92]
     @ '' Use researchWeb tool with query "memory"\<newline>''
     @ ''\<newline>''
     @ ''## Tools Available\<newline>''
     @ ''- saveAvatarProfile: Set name, bio, tone (casual/professional/playful/technical), expertiseTags\<newline>''
     @ ''- saveMemory: Store preferences, tasks, or notes  \<newline>''
     @ ''- researchWeb: Search docs.percify.io for documentation on Percify features\<newline>''
     @ ''\<newline>''\<close>

text \<open>
  \<open>getSchedulePrompt({ date: new Date() })\<close> belongs to the scheduling library and
  reads the clock: its text is the parameter \<open>schedulePrompt\<close>.
\<close>

definition getSystemPrompt :: "string \<Rightarrow> (string \<Rightarrow> string) \<Rightarrow> AgentState \<Rightarrow> string" where
  "getSystemPrompt schedulePrompt toLocaleDateString s =
     (let t = or_truthy (map_option tone (avatar s)) Casual
      in prompt_head @ tone_name t @ ''): '' @ toneInstructions t @ prompt_rest
           @ schedulePrompt @ ''\<newline>\<newline>''
           @ buildContextString toLocaleDateString s)"

section \<open>Worker entry point\<close>

text \<open>
  \<open>fetch\<close> as a function of the path of the request: a JSON body (a list of
  properties) for the two paths it answers itself, and \<open>RouteAgentRequest\<close> where it
  hands the request to \<open>routeAgentRequest\<close> (or answers 404).
\<close>

datatype JsonValue = JBool bool | JString string

datatype FetchResponse = JsonResponse "(string \<times> JsonValue) list" | RouteAgentRequest

definition fetch :: "string \<Rightarrow> FetchResponse" where
  "fetch pathname =
     (if pathname = ''/check-open-ai-key''
      then JsonResponse [(''success'', JBool True), (''provider'', JString ''workers-ai'')]
      else if pathname = ''/api/avatar-state''
      then JsonResponse [(''message'', JString ''Use WebSocket connection to access avatar state'')]
      else RouteAgentRequest)"

section \<open>Message sanitizer\<close>

text \<open>
  Modelled from the spec: \<open>cleanupMessages\<close> is imported from \<open>./utils\<close>, a file of
  the repository that is not among the sources; \<open>server.ts\<close> only calls it on
  \<open>this.messages\<close>. A history is a list of records: a chat message (role and text), a
  tool invocation (the identifier of the call and the tool's name), or the result of a
  call (the identifier of the call and the output).
\<close>

datatype HistoryRecord =
    ChatMessage string string
  | ToolInvocation string string
  | ToolResult string string

text \<open>
  Modelled from the spec: the identifiers of the calls that have a result in the
  history, for "a tool-invocation record that has no matching result" (4.3).
\<close>

fun result_ids :: "HistoryRecord list \<Rightarrow> string list" where
  "result_ids [] = []"
| "result_ids (ToolResult call_id out # h) = call_id # result_ids h"
| "result_ids (r # h) = result_ids h"

text \<open>
  Modelled from the spec: a record is unresolved in a history when it is a tool
  invocation and no result in the history carries its identifier. Every other record
  is fully resolved.
\<close>

definition unresolved :: "HistoryRecord list \<Rightarrow> HistoryRecord \<Rightarrow> bool" where
  "unresolved h r =
     (case r of ToolInvocation call_id name \<Rightarrow> call_id \<notin> set (result_ids h) | _ \<Rightarrow> False)"

text \<open>
  Modelled from the spec: \<open>sanitize\<close> (4.3) removes any trailing tool-invocation
  record that has no matching result, so that the history never ends in the middle of
  a tool call: the records are dropped from the end for as long as they are unresolved.
\<close>

definition sanitize :: "HistoryRecord list \<Rightarrow> HistoryRecord list" where
  "sanitize h = rev (dropWhile (unresolved h) (rev h))"

section \<open>Properties of the state store\<close>

lemma length_slice_last: "length (slice_last n xs) = min n (length xs)"
  by (simp add: slice_last_def)

lemma slice_last_all: "length xs \<le> n \<Longrightarrow> slice_last n xs = xs"
  by (simp add: slice_last_def)

lemma slice_last_suffix: "take (length xs - n) xs @ slice_last n xs = xs"
  by (simp add: slice_last_def)

lemma slice_last_append:
  "n \<le> length ys \<Longrightarrow> slice_last n (xs @ ys) = slice_last n ys"
  by (simp add: slice_last_def)

lemma slice_last_slice_last_append:
  "0 < n \<Longrightarrow> slice_last n (slice_last n xs @ [y]) = slice_last n (xs @ [y])"
  by (cases "length xs \<le> n") (auto simp: slice_last_def Suc_diff_le)

lemma item_of_tuple:
  "item_of (fresh, now, ty, c) = \<lparr>mem_id = fresh, createdAt = now, mem_type = ty, content = c\<rparr>"
  by (simp add: item_of_def)

lemma saveMemory_memories:
  "memories (fst (saveMemory fresh now ty c s)) =
     slice_last 50 (memories s @ [item_of (fresh, now, ty, c)])"
  by (simp add: saveMemory_def Let_def slice_last_def item_of_tuple)

lemma saveMemory_avatar: "avatar (fst (saveMemory fresh now ty c s)) = avatar s"
  by (simp add: saveMemory_def Let_def)

lemma saveMemories_avatar: "avatar (saveMemories calls s) = avatar s"
  by (induction calls s rule: saveMemories.induct) (simp_all add: saveMemory_avatar)

lemma saveMemories_snoc:
  "saveMemories (calls @ [(fresh, now, ty, c)]) s =
     fst (saveMemory fresh now ty c (saveMemories calls s))"
  by (induction calls s rule: saveMemories.induct) simp_all

lemma saveMemories_memories:
  "calls \<noteq> [] \<Longrightarrow>
   memories (saveMemories calls s) = slice_last 50 (memories s @ map item_of calls)"
proof (induction calls arbitrary: s rule: rev_induct)
  case Nil
  then show ?case by simp
next
  case (snoc call calls)
  obtain fresh now ty c where call: "call = (fresh, now, ty, c)"
    by (cases call) auto
  show ?case
  proof (cases "calls = []")
    case True
    then show ?thesis
      by (simp add: call saveMemory_memories)
  next
    case False
    then have "memories (saveMemories calls s) = slice_last 50 (memories s @ map item_of calls)"
      by (rule snoc.IH)
    then show ?thesis
      using slice_last_slice_last_append [of 50 "memories s @ map item_of calls" "item_of call"]
      by (simp add: call saveMemories_snoc saveMemory_memories)
  qed
qed

lemma slice_last_slice_last:
  assumes "m \<le> n"
  shows "slice_last m (slice_last n xs) = slice_last m xs"
proof -
  have "length xs - n + (length xs - (length xs - n) - m) = length xs - m"
    using assms by arith
  then show ?thesis
    by (simp add: slice_last_def add.commute)
qed

subsection \<open>The memory cap\<close>

text \<open>
  Claim C1. Take any state \<open>s\<close> and any sequence of \<open>saveMemory\<close> calls, and one
  more call after them. \<open>created\<close> lists the memories in the order of their creation:
  those of \<open>s\<close>, then one for each call. After the last call the state is the one the
  whole sequence leads to; its list has at most 50 items; it is the last 50 of
  \<open>created\<close> (all of them while there are fewer), so the items evicted are the oldest
  ones, a prefix of \<open>created\<close>, and the survivors keep their order; the new item is
  last; the call returns the last 5 items of the list after eviction (all of them
  while there are fewer than 5); the avatar is not touched. The sequence is arbitrary,
  so this holds after each of its calls.
\<close>

theorem saveMemory_cap_fifo:
  "(let created = memories s @ map item_of calls @ [item_of (fresh, now, ty, c)];
        before = saveMemories calls s;
        after = fst (saveMemory fresh now ty c before);
        returned = snd (saveMemory fresh now ty c before)
    in after = saveMemories (calls @ [(fresh, now, ty, c)]) s
       \<and> length (memories after) \<le> 50
       \<and> memories after = slice_last 50 created
       \<and> take (length created - 50) created @ memories after = created
       \<and> last (memories after) = item_of (fresh, now, ty, c)
       \<and> returned = slice_last 5 (memories after)
       \<and> returned = slice_last 5 created
       \<and> length returned = min 5 (length created)
       \<and> avatar after = avatar s)"
proof -
  let ?item = "item_of (fresh, now, ty, c)"
  let ?created = "memories s @ map item_of calls @ [?item]"
  let ?before = "saveMemories calls s"
  let ?after = "fst (saveMemory fresh now ty c ?before)"
  let ?returned = "snd (saveMemory fresh now ty c ?before)"
  have seq: "?after = saveMemories (calls @ [(fresh, now, ty, c)]) s"
    by (simp add: saveMemories_snoc)
  have "memories (saveMemories (calls @ [(fresh, now, ty, c)]) s) = slice_last 50 ?created"
    using saveMemories_memories [of "calls @ [(fresh, now, ty, c)]" s] by simp
  then have mem: "memories ?after = slice_last 50 ?created"
    using seq by simp
  have len: "length (memories ?after) \<le> 50"
    by (simp add: mem length_slice_last)
  have evicted: "take (length ?created - 50) ?created @ memories ?after = ?created"
    by (simp only: mem slice_last_suffix)
  have "slice_last 50 ?created = drop (length ?created - 50) (memories s @ map item_of calls) @ [?item]"
    by (simp add: slice_last_def)
  then have lst: "last (memories ?after) = ?item"
    by (simp add: mem)
  have ret: "?returned = slice_last 5 (memories ?after)"
    by (simp add: saveMemory_def Let_def)
  have "slice_last 5 (slice_last 50 ?created) = slice_last 5 ?created"
    by (rule slice_last_slice_last) simp
  then have ret': "?returned = slice_last 5 ?created"
    using ret mem by simp
  have rlen: "length ?returned = min 5 (length ?created)"
    by (simp only: ret' length_slice_last)
  have av: "avatar ?after = avatar s"
    by (simp add: saveMemory_avatar saveMemories_avatar)
  show ?thesis
    unfolding Let_def using seq len mem evicted lst ret ret' rlen av by blast
qed

subsection \<open>The startup check\<close>

text \<open>
  Claim C4, as the code has it. \<open>onStart\<close> never fails and always leaves an object
  whose \<open>memories\<close> is an array. A slot that is absent or not an object is reset to
  \<open>{avatar: undefined, memories: []}\<close>. An object whose \<open>memories\<close> is not an array
  keeps its avatar and only has \<open>memories\<close> reset to the empty array. A well-formed
  state is left as it is.
\<close>

theorem onStart_self_heal:
  "onStart s =
     Inr (case s of
            RawObject a (MemArray ms) \<Rightarrow> RawObject a (MemArray ms)
          | RawObject a MemNotArray \<Rightarrow> RawObject a (MemArray [])
          | _ \<Rightarrow> RawObject None (MemArray []))"
  by (cases s rule: RawState.exhaust)
     (auto simp: onStart_def js_falsy_def typeof_object_def isArray_def split: RawMemories.splits)

text \<open>
  Claim C4 as stated fails: a state with an avatar and a \<open>memories\<close> property that is
  not an array does not become \<open>{avatar: undefined, memories: []}\<close>; the second
  branch of \<open>onStart\<close> spreads the old state and the avatar survives.
\<close>

theorem onStart_keeps_avatar_counterexample:
  "onStart (RawObject (Some \<lparr>avatar_id = ''a1'', displayName = ''Ada'', bio = '''',
                              tone = Casual, expertiseTags = []\<rparr>) MemNotArray)
     = Inr (RawObject (Some \<lparr>avatar_id = ''a1'', displayName = ''Ada'', bio = '''',
                               tone = Casual, expertiseTags = []\<rparr>) (MemArray []))
   \<and> onStart (RawObject (Some \<lparr>avatar_id = ''a1'', displayName = ''Ada'', bio = '''',
                                tone = Casual, expertiseTags = []\<rparr>) MemNotArray)
     \<noteq> Inr (RawObject None (MemArray []))"
  by (simp add: onStart_def js_falsy_def typeof_object_def isArray_def)

subsection \<open>Reading the state\<close>

text \<open>
  The method \<open>getAvatarState\<close> leaves the state as it is and returns the avatar
  together with the last 5 memories.
\<close>

lemma getAvatarState_view:
  "getAvatarState s = (s, \<lparr>avatar = avatar s, memories = slice_last 5 (memories s)\<rparr>)
   \<and> length (memories (snd (getAvatarState s))) = min 5 (length (memories s))"
  by (simp add: getAvatarState_def length_slice_last)

text \<open>
  Claim C6 at the read endpoint. The handler of \<open>/api/avatar-state\<close> does not reach
  the agent: whatever the state, its body is one fixed message, with no avatar and no
  memories in it.
\<close>

theorem avatar_state_endpoint_fixed_message:
  "fetch ''/api/avatar-state''
     = JsonResponse [(''message'', JString ''Use WebSocket connection to access avatar state'')]"
  by (simp add: fetch_def)

subsection \<open>The profile merge\<close>

lemma or_string_simps:
  "or_string None b = b"
  "or_string (Some []) b = b"
  "s \<noteq> [] \<Longrightarrow> or_string (Some s) b = s"
  by (simp_all add: or_string_def)

lemma or_truthy_simps:
  "or_truthy None b = b"
  "or_truthy (Some v) b = v"
  by (simp_all add: or_truthy_def)




section \<open>Properties of the matcher\<close>

lemma startsWith_iff: "startsWith s t \<longleftrightarrow> (\<exists>v. s = t @ v)"
  by (induction s t rule: startsWith.induct) auto

text \<open>\<open>str_includes\<close> is the substring relation.\<close>

lemma str_includes_iff: "str_includes s t \<longleftrightarrow> (\<exists>u v. s = u @ t @ v)"
proof (induction s)
  case Nil
  then show ?case by auto
next
  case (Cons a s)
  show ?case
  proof
    assume "str_includes (a # s) t"
    then consider "startsWith (a # s) t" | "str_includes s t" by auto
    then show "\<exists>u v. a # s = u @ t @ v"
    proof cases
      case 1
      then obtain v where "a # s = t @ v" by (auto simp: startsWith_iff)
      then have "a # s = [] @ t @ v" by simp
      then show ?thesis by blast
    next
      case 2
      then obtain u v where "s = u @ t @ v" using Cons.IH by blast
      then have "a # s = (a # u) @ t @ v" by simp
      then show ?thesis by blast
    qed
  next
    assume "\<exists>u v. a # s = u @ t @ v"
    then obtain u v where uv: "a # s = u @ t @ v" by blast
    show "str_includes (a # s) t"
    proof (cases u)
      case Nil
      with uv have "startsWith (a # s) t" by (auto simp: startsWith_iff)
      then show ?thesis by simp
    next
      case (Cons b u')
      with uv have "s = u' @ t @ v" by simp
      then have "str_includes s t" using Cons.IH by blast
      then show ?thesis by simp
    qed
  qed
qed

lemma str_includes_empty: "str_includes s [] = True"
  by (cases s) simp_all

subsection \<open>Splitting at white space\<close>

text \<open>
  After a run of white space has begun, the rest of the run is skipped; while a piece
  is being read, it runs up to the next white space.
\<close>

lemma split_from_run:
  "split_from [] True s = split_from [] False (dropWhile is_whitespace s)"
  by (induction s) simp_all

lemma split_from_piece:
  "split_from cur False s =
     (cur @ takeWhile (\<lambda>c. \<not> is_whitespace c) s)
       # (if dropWhile (\<lambda>c. \<not> is_whitespace c) s = [] then []
          else split_from [] True (dropWhile (\<lambda>c. \<not> is_whitespace c) s))"
proof (induction s arbitrary: cur)
  case Nil
  then show ?case by simp
next
  case (Cons c s)
  show ?case
  proof (cases "is_whitespace c")
    case True
    then show ?thesis by simp
  next
    case False
    then show ?thesis using Cons.IH [of "cur @ [c]"] by simp
  qed
qed

text \<open>
  The pieces of \<open>split_ws\<close>, without the bookkeeping of the loop: the first piece is
  the string up to its first white space; if there is white space, the pieces that
  follow are those of what comes after the run of white space that begins there.
\<close>

lemma split_ws_unfold:
  "split_ws t =
     takeWhile (\<lambda>c. \<not> is_whitespace c) t
       # (if dropWhile (\<lambda>c. \<not> is_whitespace c) t = [] then []
          else split_ws (dropWhile is_whitespace (dropWhile (\<lambda>c. \<not> is_whitespace c) t)))"
proof -
  have "split_from [] True (dropWhile (\<lambda>c. \<not> is_whitespace c) t)
          = split_ws (dropWhile is_whitespace (dropWhile (\<lambda>c. \<not> is_whitespace c) t))"
    by (simp only: split_from_run split_ws_def)
  then show ?thesis
    using split_from_piece [of "[]" t] by (simp add: split_ws_def)
qed

lemma split_from_no_whitespace:
  "\<forall>c \<in> set cur. \<not> is_whitespace c \<Longrightarrow>
   \<forall>tok \<in> set (split_from cur in_run s). \<forall>c \<in> set tok. \<not> is_whitespace c"
proof (induction s arbitrary: cur in_run)
  case Nil
  then show ?case by simp
next
  case (Cons a s)
  show ?case
  proof (cases "is_whitespace a")
    case True
    have "\<forall>tok \<in> set (split_from cur True s). \<forall>c \<in> set tok. \<not> is_whitespace c"
      using Cons.prems by (rule Cons.IH)
    moreover have "\<forall>tok \<in> set (split_from [] True s). \<forall>c \<in> set tok. \<not> is_whitespace c"
      by (rule Cons.IH) simp
    ultimately show ?thesis
      using True Cons.prems by simp
  next
    case False
    have "\<forall>c \<in> set (cur @ [a]). \<not> is_whitespace c"
      using False Cons.prems by simp
    then have "\<forall>tok \<in> set (split_from (cur @ [a]) False s). \<forall>c \<in> set tok. \<not> is_whitespace c"
      by (rule Cons.IH)
    then show ?thesis
      using False by simp
  qed
qed

lemma split_ws_no_whitespace:
  "\<forall>tok \<in> set (split_ws t). \<forall>c \<in> set tok. \<not> is_whitespace c"
  unfolding split_ws_def by (rule split_from_no_whitespace) simp

lemma is_whitespace_iff:
  "is_whitespace c \<longleftrightarrow>
     c \<in> {0x0009, 0x000A, 0x000B, 0x000C, 0x000D, 0x0020, 0x00A0, 0x1680,
           0x2000, 0x2001, 0x2002, 0x2003, 0x2004, 0x2005, 0x2006, 0x2007,
           0x2008, 0x2009, 0x200A, 0x2028, 0x2029, 0x202F, 0x205F, 0x3000, 0xFEFF}"
  unfolding is_whitespace_def by (simp only: list.set)

subsection \<open>The score of an entry\<close>

text \<open>The inner loop adds the points of the tokens longer than 2 code units.\<close>

lemma words_loop_sum:
  "words_loop lc key doc ws score =
     score + sum_list (map (token_points lc key doc) (filter (\<lambda>w. 2 < length w) ws))"
  by (induction lc key doc ws score rule: words_loop.induct) (auto simp: token_points_def Let_def)

lemma entry_score_sum:
  "entry_score lc ql key doc =
       (if str_includes ql key then 10 else 0)
     + (if str_includes (lc (title doc)) ql then 5 else 0)
     + (if str_includes (lc (doc_content doc)) ql then 3 else 0)
     + sum_list (map (token_points lc key doc) (filter (\<lambda>tok. 2 < length tok) (split_ws ql)))"
  by (simp add: entry_score_def Let_def words_loop_sum)

lemma entry_score_empty: "entry_score lc [] key doc = (if key = [] then 18 else 8)"
  by (simp add: entry_score_def Let_def split_ws_def str_includes_empty)

subsection \<open>The loop over the catalog\<close>

text \<open>
  Entries that do not beat \<open>matchScore\<close> leave the pair alone, and the first entry
  that beats all before it and is not beaten after it is kept.
\<close>

lemma docs_loop_below:
  "\<forall>(k, d) \<in> set entries. entry_score lc ql k d \<le> ms
   \<Longrightarrow> docs_loop lc ql entries (bm, ms) = (bm, ms)"
  by (induction entries) (auto simp: Let_def)

lemma docs_loop_bound:
  "\<forall>(k, d) \<in> set entries. entry_score lc ql k d < m \<Longrightarrow> ms < m
   \<Longrightarrow> snd (docs_loop lc ql entries (bm, ms)) < m"
  by (induction entries arbitrary: bm ms) (auto simp: Let_def)

lemma docs_loop_append:
  "docs_loop lc ql (pre @ post) st = docs_loop lc ql post (docs_loop lc ql pre st)"
proof (induction pre arbitrary: st)
  case Nil
  then show ?case by (cases st) simp
next
  case (Cons e pre)
  then show ?case by (cases e; cases st) (simp add: Let_def)
qed

lemma docs_loop_first_max:
  assumes pre: "\<forall>(k', d') \<in> set pre. entry_score lc ql k' d' < entry_score lc ql k d"
    and post: "\<forall>(k', d') \<in> set post. entry_score lc ql k' d' \<le> entry_score lc ql k d"
    and pos: "ms < entry_score lc ql k d"
  shows "docs_loop lc ql (pre @ (k, d) # post) (bm, ms) = (Some d, entry_score lc ql k d)"
proof -
  obtain bm' ms' where st: "docs_loop lc ql pre (bm, ms) = (bm', ms')"
    by (cases "docs_loop lc ql pre (bm, ms)") auto
  have "ms' < entry_score lc ql k d"
    using docs_loop_bound [OF pre pos, of bm] st by simp
  then have "docs_loop lc ql ((k, d) # post) (bm', ms')
               = docs_loop lc ql post (Some d, entry_score lc ql k d)"
    by (simp add: Let_def)
  also have "\<dots> = (Some d, entry_score lc ql k d)"
    using post by (rule docs_loop_below)
  finally show ?thesis
    by (simp add: docs_loop_append st)
qed

text \<open>In a non-empty list some element is the first to reach the maximum.\<close>

lemma first_max_split:
  fixes f :: "'a \<Rightarrow> nat"
  assumes "xs \<noteq> []"
  shows "\<exists>pre x post. xs = pre @ x # post \<and> (\<forall>y \<in> set pre. f y < f x) \<and> (\<forall>y \<in> set post. f y \<le> f x)"
  using assms
proof (induction xs rule: rev_induct)
  case Nil
  then show ?case by simp
next
  case (snoc z xs)
  show ?case
  proof (cases "xs = []")
    case True
    then have "xs @ [z] = [] @ z # []" by simp
    then show ?thesis by (metis empty_iff list.set(1))
  next
    case False
    then obtain pre x post where sp: "xs = pre @ x # post"
      and lt: "\<forall>y \<in> set pre. f y < f x" and le: "\<forall>y \<in> set post. f y \<le> f x"
      using snoc.IH by blast
    show ?thesis
    proof (cases "f z \<le> f x")
      case True
      have "xs @ [z] = pre @ x # (post @ [z])" using sp by simp
      moreover have "\<forall>y \<in> set (post @ [z]). f y \<le> f x" using le True by auto
      ultimately show ?thesis using lt by blast
    next
      case False
      have "xs @ [z] = xs @ z # []" by simp
      moreover have "\<forall>y \<in> set xs. f y < f z" using sp lt le False by fastforce
      ultimately show ?thesis by (metis empty_iff list.set(1))
    qed
  qed
qed

lemma researchWeb_fallback:
  assumes "\<forall>(k, d) \<in> set percifyDocs. entry_score lc (lc q) k d < 2"
  shows "researchWeb lc q s = (s, render_result q doc_getting_started)"
proof -
  obtain bm ms where st: "docs_loop lc (lc q) percifyDocs (None, 0) = (bm, ms)"
    by (cases "docs_loop lc (lc q) percifyDocs (None, 0)") auto
  have "snd (docs_loop lc (lc q) percifyDocs (None, 0)) < 2"
    using assms by (rule docs_loop_bound) simp
  then have "ms < 2" using st by simp
  then show ?thesis
    by (simp add: researchWeb_def Let_def st split: option.splits)
qed

lemma researchWeb_winner:
  assumes "percifyDocs = pre @ (k, d) # post"
    and "2 \<le> entry_score lc (lc q) k d"
    and "\<forall>(k', d') \<in> set pre. entry_score lc (lc q) k' d' < entry_score lc (lc q) k d"
    and "\<forall>(k', d') \<in> set post. entry_score lc (lc q) k' d' \<le> entry_score lc (lc q) k d"
  shows "researchWeb lc q s = (s, render_result q d)"
proof -
  have "docs_loop lc (lc q) (pre @ (k, d) # post) (None, 0) = (Some d, entry_score lc (lc q) k d)"
    using assms(3,4) by (rule docs_loop_first_max) (use assms(2) in simp)
  then show ?thesis
    using assms(1,2) by (simp add: researchWeb_def Let_def)
qed

text \<open>The method returns the agent's state as it was given.\<close>

lemma researchWeb_state: "fst (researchWeb lc q s) = s"
  by (simp add: researchWeb_def Let_def split: prod.splits)

subsection \<open>The catalog in lower case\<close>

text \<open>
  The titles and contents of the catalog are ASCII text, on which \<open>toLowerCase\<close> is
  \<open>toLowerCase_ascii\<close>. These are their lower-case forms.
\<close>

lemma lower_title_avatar:
  \<open>toLowerCase_ascii (title doc_avatar) = ascii ''avatar setup guide''\<close>
  by (simp add: doc_avatar_def toLowerCase_ascii_def ascii_def)

lemma lower_content_avatar:
  \<open>toLowerCase_ascii (doc_content doc_avatar) =
     ascii ''percify avatar co-pilot lets you create a personalized ai persona. your avatar includes: displayname (your preferred name), bio (a short description), tone (casual/professional/playful/technical), and expertisetags (your areas of expertise). use the command 'create my avatar as [name]' or 'set my tone to professional' to customize your experience. avatars persist across sessions using cloudflare durable objects.''\<close>
  by (simp add: doc_avatar_def toLowerCase_ascii_def ascii_def)

lemma lower_title_memory:
  \<open>toLowerCase_ascii (title doc_memory) = ascii ''memory system''\<close>
  by (simp add: doc_memory_def toLowerCase_ascii_def ascii_def)

lemma lower_content_memory:
  \<open>toLowerCase_ascii (doc_content doc_memory) =
     ascii ''percify stores three types of memories: tasks (things to do), preferences (your likes/settings), and notes (general information). say 'remember that i prefer dark mode' or 'note: meeting at 3pm'. memories are stored persistently and limited to 50 items with automatic cleanup of oldest entries. access recent memories anytime - they're included in your avatar context.''\<close>
  by (simp add: doc_memory_def toLowerCase_ascii_def ascii_def)

lemma lower_title_tone:
  \<open>toLowerCase_ascii (title doc_tone) = ascii ''tone customization''\<close>
  by (simp add: doc_tone_def toLowerCase_ascii_def ascii_def)

lemma lower_content_tone:
  \<open>toLowerCase_ascii (doc_content doc_tone) =
     ascii ''choose from 4 tone styles: casual (friendly, relaxed, conversational), professional (formal, precise, business-like), playful (fun, energetic, humorous), technical (detailed, accurate, uses technical terms). change anytime with 'set my tone to [style]'. your tone affects how percify responds to all your messages.''\<close>
  by (simp add: doc_tone_def toLowerCase_ascii_def ascii_def)

lemma lower_title_tools:
  \<open>toLowerCase_ascii (title doc_tools) = ascii ''available tools''\<close>
  by (simp add: doc_tools_def toLowerCase_ascii_def ascii_def)

lemma lower_content_tools:
  \<open>toLowerCase_ascii (doc_content doc_tools) =
     ascii ''percify has 4 core tools: 1) saveavatarprofile - create/update your avatar (name, bio, tone, expertise). 2) savememory - store preferences, tasks, or notes. 3) researchweb - look up information from percify docs. 4) getavatarstate - view current avatar and recent memories. plus scheduling tools for reminders and recurring tasks.''\<close>
  by (simp add: doc_tools_def toLowerCase_ascii_def ascii_def)

lemma lower_title_schedule:
  \<open>toLowerCase_ascii (title doc_schedule) = ascii ''scheduling & reminders''\<close>
  by (simp add: doc_schedule_def toLowerCase_ascii_def ascii_def)

lemma lower_content_schedule:
  \<open>toLowerCase_ascii (doc_content doc_schedule) =
     ascii ''schedule tasks with natural language: 'remind me in 1 hour to check email' or 'schedule daily standup at 9am'. percify uses cloudflare's scheduling system for reliable task execution. view scheduled tasks with 'show my schedules' and cancel with 'cancel schedule [id]'.''\<close>
  by (simp add: doc_schedule_def toLowerCase_ascii_def ascii_def)

lemma lower_title_getting_started:
  \<open>toLowerCase_ascii (title doc_getting_started) = ascii ''getting started''\<close>
  by (simp add: doc_getting_started_def toLowerCase_ascii_def ascii_def)

lemma lower_content_getting_started:
  \<open>toLowerCase_ascii (doc_content doc_getting_started) =
     ascii ''welcome to percify! start by creating your avatar: tell me your name and preferred tone. then save some preferences so i remember your style. try: '1) create avatar named alex with professional tone, 2) remember i prefer typescript, 3) research how memory works'. your data persists across sessions!''\<close>
  by (simp add: doc_getting_started_def toLowerCase_ascii_def ascii_def)

lemma lower_title_architecture:
  \<open>toLowerCase_ascii (title doc_architecture) = ascii ''technical architecture''\<close>
  by (simp add: doc_architecture_def toLowerCase_ascii_def ascii_def)

lemma lower_content_architecture:
  \<open>toLowerCase_ascii (doc_content doc_architecture) =
     ascii ''percify runs on cloudflare's edge network using: workers ai (llama 3.3 70b model for inference), durable objects (persistent state storage), websockets (real-time chat), and the agents sdk (orchestration). state is stored in sqlite within durable objects for low-latency global access.''\<close>
  by (simp add: doc_architecture_def toLowerCase_ascii_def ascii_def)

lemma lower_title_api:
  \<open>toLowerCase_ascii (title doc_api) = ascii ''api reference''\<close>
  by (simp add: doc_api_def toLowerCase_ascii_def ascii_def)

lemma lower_content_api:
  \<open>toLowerCase_ascii (doc_content doc_api) =
     ascii ''rest endpoints: get /api/avatar-state returns current avatar and last 5 memories. get /check-open-ai-key returns provider status. websocket connects at /chat for real-time messaging. all endpoints return json. authentication is handled per-session via durable object ids.''\<close>
  by (simp add: doc_api_def toLowerCase_ascii_def ascii_def)

lemma lower_title_expertise:
  \<open>toLowerCase_ascii (title doc_expertise) = ascii ''expertise tags''\<close>
  by (simp add: doc_expertise_def toLowerCase_ascii_def ascii_def)

lemma lower_content_expertise:
  \<open>toLowerCase_ascii (doc_content doc_expertise) =
     ascii ''add expertise tags to your avatar to help percify understand your background. examples: 'typescript', 'react', 'devops', 'machine learning'. set with 'my expertise is [tag1], [tag2], [tag3]'. tags help contextualize responses and can be used for personalized recommendations.''\<close>
  by (simp add: doc_expertise_def toLowerCase_ascii_def ascii_def)

lemma lower_title_troubleshooting:
  \<open>toLowerCase_ascii (title doc_troubleshooting) = ascii ''troubleshooting''\<close>
  by (simp add: doc_troubleshooting_def toLowerCase_ascii_def ascii_def)

lemma lower_content_troubleshooting:
  \<open>toLowerCase_ascii (doc_content doc_troubleshooting) =
     ascii ''common issues: 1) avatar not saving? ensure you provide at least a name. 2) memories full? oldest are auto-deleted after 50 items. 3) slow responses? check network connection. 4) wrong tone? say 'change tone to [style]'. 5) reset everything? say 'reset my avatar' to start fresh.''\<close>
  by (simp add: doc_troubleshooting_def toLowerCase_ascii_def ascii_def)

lemmas lower_docs =
  lower_title_avatar lower_content_avatar
  lower_title_memory lower_content_memory
  lower_title_tone lower_content_tone
  lower_title_tools lower_content_tools
  lower_title_schedule lower_content_schedule
  lower_title_getting_started lower_content_getting_started
  lower_title_architecture lower_content_architecture
  lower_title_api lower_content_api
  lower_title_expertise lower_content_expertise
  lower_title_troubleshooting lower_content_troubleshooting

lemmas eval_score =
  entry_score_def split_ws_def is_whitespace_def Let_def lower_docs ascii_def

subsection \<open>Score and winner\<close>

text \<open>
  Claim C3. For every query and whatever \<open>toLowerCase\<close> is, with \<open>ql\<close> the lower-cased
  query, the score the loop computes for an entry is 10 if \<open>ql\<close> contains the key,
  plus 5 if the lower-cased title contains \<open>ql\<close>, plus 3 if the lower-cased content
  contains \<open>ql\<close>, plus, for every piece of \<open>ql\<close> split at white space that is longer
  than 2 code units, 2 if the key contains the piece and 1 if the lower-cased content
  contains it. Here "contains" is: occurs as a contiguous substring; white space is the
  class \<open>\s\<close>; the pieces are the string up to its first white space and then the
  pieces of what follows that run of white space; and the catalog is read in the order
  of its ten keys. If every entry scores below 2, the result is rendered from the
  "getting started" entry. Otherwise the entry that is first in catalog order to reach
  the maximum (every entry before it scores strictly less, none after it scores more)
  has a score of at least 2, and the result (query, snippet, source URL) is rendered
  from it. One of the two cases always applies.
\<close>

theorem researchWeb_scoring:
  "(let ql = toLowerCase q;
        sc = (\<lambda>(key, doc). entry_score toLowerCase ql key doc);
        rendered = (\<lambda>doc. \<lparr>query = q,
                         snippet = [0xD83D, 0xDCDA] @ ascii '' **'' @ title doc
                                     @ ascii ''** (docs.percify.io)\<newline>\<newline>''
                                     @ doc_content doc,
                         sourceUrl = ascii ''https://docs.percify.io'' @ path doc\<rparr>)
    in (\<forall>key doc.
          entry_score toLowerCase ql key doc =
              (if str_includes ql key then 10 else 0)
            + (if str_includes (toLowerCase (title doc)) ql then 5 else 0)
            + (if str_includes (toLowerCase (doc_content doc)) ql then 3 else 0)
            + sum_list (map (\<lambda>tok. (if str_includes key tok then 2 else 0)
                                     + (if str_includes (toLowerCase (doc_content doc)) tok
                                        then 1 else 0))
                           (filter (\<lambda>tok. 2 < length tok) (split_ws ql))))
       \<and> (\<forall>a b :: jsstring. str_includes a b = (\<exists>u v. a = u @ b @ v))
       \<and> (\<forall>c. is_whitespace c =
              (c \<in> {0x0009, 0x000A, 0x000B, 0x000C, 0x000D, 0x0020, 0x00A0, 0x1680,
                   0x2000, 0x2001, 0x2002, 0x2003, 0x2004, 0x2005, 0x2006, 0x2007,
                   0x2008, 0x2009, 0x200A, 0x2028, 0x2029, 0x202F, 0x205F, 0x3000, 0xFEFF}))
       \<and> (\<forall>t. split_ws t =
              takeWhile (\<lambda>c. \<not> is_whitespace c) t
                # (if dropWhile (\<lambda>c. \<not> is_whitespace c) t = [] then []
                   else split_ws (dropWhile is_whitespace
                                   (dropWhile (\<lambda>c. \<not> is_whitespace c) t))))
       \<and> map fst percifyDocs = map ascii [''avatar'', ''memory'', ''tone'', ''tools'', ''schedule'', ''getting_started'', ''architecture'', ''api'', ''expertise'', ''troubleshooting'']
       \<and> ((\<forall>e \<in> set percifyDocs. sc e < 2) \<longrightarrow>
              snd (researchWeb toLowerCase q s) = rendered doc_getting_started)
       \<and> (\<forall>pre key doc post.
              percifyDocs = pre @ (key, doc) # post \<and> 2 \<le> sc (key, doc)
              \<and> (\<forall>e \<in> set pre. sc e < sc (key, doc))
              \<and> (\<forall>e \<in> set post. sc e \<le> sc (key, doc)) \<longrightarrow>
              snd (researchWeb toLowerCase q s) = rendered doc)
       \<and> ((\<forall>e \<in> set percifyDocs. sc e < 2)
            \<or> (\<exists>pre key doc post.
                  percifyDocs = pre @ (key, doc) # post \<and> 2 \<le> sc (key, doc)
                  \<and> (\<forall>e \<in> set pre. sc e < sc (key, doc))
                  \<and> (\<forall>e \<in> set post. sc e \<le> sc (key, doc)))))"
proof -
  let ?ql = "toLowerCase q"
  let ?sc = "\<lambda>(key, doc). entry_score toLowerCase ?ql key doc"
  let ?rendered = "(\<lambda>doc. \<lparr>query = q,
                         snippet = [0xD83D, 0xDCDA] @ ascii '' **'' @ title doc
                                     @ ascii ''** (docs.percify.io)\<newline>\<newline>''
                                     @ doc_content doc,
                         sourceUrl = ascii ''https://docs.percify.io'' @ path doc\<rparr>)"
  have rendered: "render_result q doc = ?rendered doc" for doc
    by (simp add: render_result_def books_emoji_def)
  have score: "entry_score toLowerCase ?ql key doc =
              (if str_includes ?ql key then 10 else 0)
            + (if str_includes (toLowerCase (title doc)) ?ql then 5 else 0)
            + (if str_includes (toLowerCase (doc_content doc)) ?ql then 3 else 0)
            + sum_list (map (\<lambda>tok. (if str_includes key tok then 2 else 0)
                                     + (if str_includes (toLowerCase (doc_content doc)) tok
                                        then 1 else 0))
                           (filter (\<lambda>tok. 2 < length tok) (split_ws ?ql)))" for key doc
    using entry_score_sum [of toLowerCase ?ql key doc] unfolding token_points_def .
  have incl: "\<forall>a b :: jsstring. str_includes a b = (\<exists>u v. a = u @ b @ v)"
    using str_includes_iff by blast
  have white: "\<forall>c. is_whitespace c =
              (c \<in> {0x0009, 0x000A, 0x000B, 0x000C, 0x000D, 0x0020, 0x00A0, 0x1680,
                   0x2000, 0x2001, 0x2002, 0x2003, 0x2004, 0x2005, 0x2006, 0x2007,
                   0x2008, 0x2009, 0x200A, 0x2028, 0x2029, 0x202F, 0x205F, 0x3000, 0xFEFF})"
    using is_whitespace_iff by blast
  have pieces: "\<forall>t. split_ws t =
              takeWhile (\<lambda>c. \<not> is_whitespace c) t
                # (if dropWhile (\<lambda>c. \<not> is_whitespace c) t = [] then []
                   else split_ws (dropWhile is_whitespace
                                   (dropWhile (\<lambda>c. \<not> is_whitespace c) t)))"
    using split_ws_unfold by blast
  have order: "map fst percifyDocs = map ascii [''avatar'', ''memory'', ''tone'', ''tools'', ''schedule'', ''getting_started'', ''architecture'', ''api'', ''expertise'', ''troubleshooting'']"
    by (simp add: percifyDocs_def)
  have fallback: "snd (researchWeb toLowerCase q s) = ?rendered doc_getting_started"
    if "\<forall>e \<in> set percifyDocs. ?sc e < 2"
  proof -
    from that have "\<forall>(k, d) \<in> set percifyDocs. entry_score toLowerCase ?ql k d < 2" by auto
    then have "researchWeb toLowerCase q s = (s, render_result q doc_getting_started)"
      by (rule researchWeb_fallback)
    then show ?thesis by (simp only: snd_conv rendered)
  qed
  have winner: "snd (researchWeb toLowerCase q s) = ?rendered doc"
    if "percifyDocs = pre @ (key, doc) # post \<and> 2 \<le> ?sc (key, doc)
        \<and> (\<forall>e \<in> set pre. ?sc e < ?sc (key, doc))
        \<and> (\<forall>e \<in> set post. ?sc e \<le> ?sc (key, doc))" for pre key doc post
  proof -
    from that have split: "percifyDocs = pre @ (key, doc) # post"
      and two: "2 \<le> entry_score toLowerCase ?ql key doc"
      and before: "\<forall>(k', d') \<in> set pre. entry_score toLowerCase ?ql k' d'
                      < entry_score toLowerCase ?ql key doc"
      and after: "\<forall>(k', d') \<in> set post. entry_score toLowerCase ?ql k' d'
                      \<le> entry_score toLowerCase ?ql key doc"
      by auto
    have "researchWeb toLowerCase q s = (s, render_result q doc)"
      using split two before after by (rule researchWeb_winner)
    then show ?thesis by (simp only: snd_conv rendered)
  qed
  have cases: "(\<forall>e \<in> set percifyDocs. ?sc e < 2)
            \<or> (\<exists>pre key doc post.
                  percifyDocs = pre @ (key, doc) # post \<and> 2 \<le> ?sc (key, doc)
                  \<and> (\<forall>e \<in> set pre. ?sc e < ?sc (key, doc))
                  \<and> (\<forall>e \<in> set post. ?sc e \<le> ?sc (key, doc)))"
  proof (cases "\<forall>e \<in> set percifyDocs. ?sc e < 2")
    case True
    then show ?thesis by blast
  next
    case False
    then obtain e where e: "e \<in> set percifyDocs" "2 \<le> ?sc e"
      by (meson not_less)
    then have "percifyDocs \<noteq> []" by auto
    then obtain pre x post where sp: "percifyDocs = pre @ x # post"
      and lt: "\<forall>y \<in> set pre. ?sc y < ?sc x" and le: "\<forall>y \<in> set post. ?sc y \<le> ?sc x"
      using first_max_split [of percifyDocs ?sc] by blast
    have "?sc e \<le> ?sc x"
      using e(1) lt le unfolding sp by (auto simp: less_imp_le)
    then have two: "2 \<le> ?sc x" using e(2) by simp
    obtain key doc where x: "x = (key, doc)" by (cases x) auto
    show ?thesis
      using sp lt le two unfolding x by blast
  qed
  show ?thesis
    unfolding Let_def
    using score incl white pieces order fallback winner cases by blast
qed

text \<open>
  The theorem at three ASCII or near-ASCII queries, with \<open>toLowerCase_ascii\<close> for the
  built-in. For \<open>API tools\<close> the pieces are \<open>api\<close> and \<open>tools\<close>, the entries \<open>tools\<close> and
  \<open>api\<close> tie at 13 and \<open>tools\<close>, the earlier one, wins. For \<open>zz you\<close> no entry scores
  more than 1 and the result is the "getting started" entry. For \<open>tasks\<close> and \<open>notes\<close>
  joined by a no-break space the query splits at that space, \<open>memory\<close> and \<open>tools\<close>
  tie at 2 and \<open>memory\<close> wins.
\<close>

lemma lower_api_tools: "toLowerCase_ascii (ascii ''API tools'') = ascii ''api tools''"
  by (simp add: toLowerCase_ascii_def ascii_def)

lemma lower_zz_you: "toLowerCase_ascii (ascii ''zz you'') = ascii ''zz you''"
  by (simp add: toLowerCase_ascii_def ascii_def)

lemma lower_tasks_notes: "toLowerCase_ascii tasks_nbsp_notes = tasks_nbsp_notes"
  by (simp add: toLowerCase_ascii_def tasks_nbsp_notes_def ascii_def)

lemma split_examples:
  "split_ws (ascii ''api tools'') = [ascii ''api'', ascii ''tools'']"
  "split_ws (ascii ''zz you'') = [ascii ''zz'', ascii ''you'']"
  "split_ws tasks_nbsp_notes = [ascii ''tasks'', ascii ''notes'']"
  "split_ws (ascii '' a  b '') = [[], ascii ''a'', ascii ''b'', []]"
  "split_ws [] = [[]]"
  by (simp_all add: split_ws_def is_whitespace_def tasks_nbsp_notes_def ascii_def)

lemma scores_api_tools:
  "entry_score toLowerCase_ascii (ascii ''api tools'') (ascii ''avatar'') doc_avatar = 0"
  "entry_score toLowerCase_ascii (ascii ''api tools'') (ascii ''memory'') doc_memory = 0"
  "entry_score toLowerCase_ascii (ascii ''api tools'') (ascii ''tone'') doc_tone = 0"
  "entry_score toLowerCase_ascii (ascii ''api tools'') (ascii ''tools'') doc_tools = 13"
  "entry_score toLowerCase_ascii (ascii ''api tools'') (ascii ''schedule'') doc_schedule = 0"
  "entry_score toLowerCase_ascii (ascii ''api tools'') (ascii ''getting_started'') doc_getting_started = 0"
  "entry_score toLowerCase_ascii (ascii ''api tools'') (ascii ''architecture'') doc_architecture = 0"
  "entry_score toLowerCase_ascii (ascii ''api tools'') (ascii ''api'') doc_api = 13"
  "entry_score toLowerCase_ascii (ascii ''api tools'') (ascii ''expertise'') doc_expertise = 0"
  "entry_score toLowerCase_ascii (ascii ''api tools'') (ascii ''troubleshooting'') doc_troubleshooting = 0"
  by (simp_all add: eval_score)

lemma scores_zz_you:
  "entry_score toLowerCase_ascii (ascii ''zz you'') (ascii ''avatar'') doc_avatar = 1"
  "entry_score toLowerCase_ascii (ascii ''zz you'') (ascii ''memory'') doc_memory = 1"
  "entry_score toLowerCase_ascii (ascii ''zz you'') (ascii ''tone'') doc_tone = 1"
  "entry_score toLowerCase_ascii (ascii ''zz you'') (ascii ''tools'') doc_tools = 1"
  "entry_score toLowerCase_ascii (ascii ''zz you'') (ascii ''schedule'') doc_schedule = 0"
  "entry_score toLowerCase_ascii (ascii ''zz you'') (ascii ''getting_started'') doc_getting_started = 1"
  "entry_score toLowerCase_ascii (ascii ''zz you'') (ascii ''architecture'') doc_architecture = 0"
  "entry_score toLowerCase_ascii (ascii ''zz you'') (ascii ''api'') doc_api = 0"
  "entry_score toLowerCase_ascii (ascii ''zz you'') (ascii ''expertise'') doc_expertise = 1"
  "entry_score toLowerCase_ascii (ascii ''zz you'') (ascii ''troubleshooting'') doc_troubleshooting = 1"
  by (simp_all add: eval_score)

lemma scores_tasks_notes:
  "entry_score toLowerCase_ascii tasks_nbsp_notes (ascii ''avatar'') doc_avatar = 0"
  "entry_score toLowerCase_ascii tasks_nbsp_notes (ascii ''memory'') doc_memory = 2"
  "entry_score toLowerCase_ascii tasks_nbsp_notes (ascii ''tone'') doc_tone = 0"
  "entry_score toLowerCase_ascii tasks_nbsp_notes (ascii ''tools'') doc_tools = 2"
  "entry_score toLowerCase_ascii tasks_nbsp_notes (ascii ''schedule'') doc_schedule = 1"
  "entry_score toLowerCase_ascii tasks_nbsp_notes (ascii ''getting_started'') doc_getting_started = 0"
  "entry_score toLowerCase_ascii tasks_nbsp_notes (ascii ''architecture'') doc_architecture = 0"
  "entry_score toLowerCase_ascii tasks_nbsp_notes (ascii ''api'') doc_api = 0"
  "entry_score toLowerCase_ascii tasks_nbsp_notes (ascii ''expertise'') doc_expertise = 0"
  "entry_score toLowerCase_ascii tasks_nbsp_notes (ascii ''troubleshooting'') doc_troubleshooting = 0"
  by (simp_all add: eval_score tasks_nbsp_notes_def)

theorem researchWeb_scoring_witness:
  "snd (researchWeb toLowerCase_ascii (ascii ''API tools'') initialState)
     = render_result (ascii ''API tools'') doc_tools
   \<and> sourceUrl (snd (researchWeb toLowerCase_ascii (ascii ''API tools'') initialState))
     = ascii ''https://docs.percify.io/docs/tools-reference''
   \<and> split_ws (ascii ''api tools'') = [ascii ''api'', ascii ''tools'']
   \<and> map (\<lambda>(key, doc). entry_score toLowerCase_ascii (ascii ''api tools'') key doc) percifyDocs
       = [0, 0, 0, 13, 0, 0, 0, 13, 0, 0]
   \<and> snd (researchWeb toLowerCase_ascii (ascii ''zz you'') initialState)
     = render_result (ascii ''zz you'') doc_getting_started
   \<and> sourceUrl (snd (researchWeb toLowerCase_ascii (ascii ''zz you'') initialState))
     = ascii ''https://docs.percify.io/docs/getting-started''
   \<and> map (\<lambda>(key, doc). entry_score toLowerCase_ascii (ascii ''zz you'') key doc) percifyDocs
       = [1, 1, 1, 1, 0, 1, 0, 0, 1, 1]
   \<and> snd (researchWeb toLowerCase_ascii tasks_nbsp_notes initialState)
     = render_result tasks_nbsp_notes doc_memory
   \<and> sourceUrl (snd (researchWeb toLowerCase_ascii tasks_nbsp_notes initialState))
     = ascii ''https://docs.percify.io/docs/memory-system''
   \<and> split_ws tasks_nbsp_notes = [ascii ''tasks'', ascii ''notes'']
   \<and> map (\<lambda>(key, doc). entry_score toLowerCase_ascii tasks_nbsp_notes key doc) percifyDocs
       = [0, 2, 0, 2, 1, 0, 0, 0, 0, 0]"
proof -
  note tools = researchWeb_scoring [of toLowerCase_ascii "ascii ''API tools''" initialState,
      unfolded Let_def lower_api_tools]
  note zz = researchWeb_scoring [of toLowerCase_ascii "ascii ''zz you''" initialState,
      unfolded Let_def lower_zz_you]
  note nbsp = researchWeb_scoring [of toLowerCase_ascii "tasks_nbsp_notes" initialState,
      unfolded Let_def lower_tasks_notes]
  have r1: "snd (researchWeb toLowerCase_ascii (ascii ''API tools'') initialState)
     = render_result (ascii ''API tools'') doc_tools"
    using tools [THEN conjunct2, THEN conjunct2, THEN conjunct2, THEN conjunct2, THEN conjunct2,
        THEN conjunct2, THEN conjunct1, rule_format,
        of "[(ascii ''avatar'', doc_avatar), (ascii ''memory'', doc_memory), (ascii ''tone'', doc_tone)]"
           "ascii ''tools''" doc_tools
           "[(ascii ''schedule'', doc_schedule), (ascii ''getting_started'', doc_getting_started),
             (ascii ''architecture'', doc_architecture), (ascii ''api'', doc_api),
             (ascii ''expertise'', doc_expertise), (ascii ''troubleshooting'', doc_troubleshooting)]"]
    by (simp add: percifyDocs_def scores_api_tools render_result_def books_emoji_def)
  have r2: "snd (researchWeb toLowerCase_ascii (ascii ''zz you'') initialState)
     = render_result (ascii ''zz you'') doc_getting_started"
    using zz [THEN conjunct2, THEN conjunct2, THEN conjunct2, THEN conjunct2, THEN conjunct2,
        THEN conjunct1]
    by (simp add: percifyDocs_def scores_zz_you render_result_def books_emoji_def)
  have r3: "snd (researchWeb toLowerCase_ascii tasks_nbsp_notes initialState)
     = render_result tasks_nbsp_notes doc_memory"
    using nbsp [THEN conjunct2, THEN conjunct2, THEN conjunct2, THEN conjunct2, THEN conjunct2,
        THEN conjunct2, THEN conjunct1, rule_format,
        of "[(ascii ''avatar'', doc_avatar)]"
           "ascii ''memory''" doc_memory
           "[(ascii ''tone'', doc_tone), (ascii ''tools'', doc_tools),
             (ascii ''schedule'', doc_schedule), (ascii ''getting_started'', doc_getting_started),
             (ascii ''architecture'', doc_architecture), (ascii ''api'', doc_api),
             (ascii ''expertise'', doc_expertise), (ascii ''troubleshooting'', doc_troubleshooting)]"]
    by (simp add: percifyDocs_def scores_tasks_notes render_result_def books_emoji_def)
  have u1: "sourceUrl (render_result (ascii ''API tools'') doc_tools)
     = ascii ''https://docs.percify.io/docs/tools-reference''"
    by (simp add: render_result_def doc_tools_def ascii_def)
  have u2: "sourceUrl (render_result (ascii ''zz you'') doc_getting_started)
     = ascii ''https://docs.percify.io/docs/getting-started''"
    by (simp add: render_result_def doc_getting_started_def ascii_def)
  have u3: "sourceUrl (render_result tasks_nbsp_notes doc_memory)
     = ascii ''https://docs.percify.io/docs/memory-system''"
    by (simp add: render_result_def doc_memory_def ascii_def)
  have s1: "map (\<lambda>(key, doc). entry_score toLowerCase_ascii (ascii ''api tools'') key doc) percifyDocs
       = [0, 0, 0, 13, 0, 0, 0, 13, 0, 0]"
    by (simp add: percifyDocs_def scores_api_tools)
  have s2: "map (\<lambda>(key, doc). entry_score toLowerCase_ascii (ascii ''zz you'') key doc) percifyDocs
       = [1, 1, 1, 1, 0, 1, 0, 0, 1, 1]"
    by (simp add: percifyDocs_def scores_zz_you)
  have s3: "map (\<lambda>(key, doc). entry_score toLowerCase_ascii tasks_nbsp_notes key doc) percifyDocs
       = [0, 2, 0, 2, 1, 0, 0, 0, 0, 0]"
    by (simp add: percifyDocs_def scores_tasks_notes)
  show ?thesis
    using r1 r2 r3 u1 u2 u3 s1 s2 s3 split_examples(1,3) by (simp only: simp_thms)
qed

subsection \<open>The empty query\<close>

text \<open>
  Claim C10. \<open>toLowerCase\<close> maps the empty string to the empty string. For every such
  function, and for \<open>toLowerCase_ascii\<close> in particular, on the empty query every one
  of the ten entries scores 8, the first entry (key \<open>avatar\<close>, Avatar Setup Guide) wins,
  and the source URL is that of \<open>/docs/avatar-guide\<close>: the result is not the "getting
  started" entry.
\<close>

theorem researchWeb_empty_query:
  "(let toLowerCase' = (\<lambda>t. if t = [] then [] else toLowerCase t)
    in map (\<lambda>(key, doc). entry_score toLowerCase' (toLowerCase' []) key doc) percifyDocs
         = [8, 8, 8, 8, 8, 8, 8, 8, 8, 8]
       \<and> docs_loop toLowerCase' (toLowerCase' []) percifyDocs (None, 0) = (Some doc_avatar, 8)
       \<and> snd (researchWeb toLowerCase' [] s) = render_result [] doc_avatar)
   \<and> map (\<lambda>(key, doc). entry_score toLowerCase_ascii (toLowerCase_ascii []) key doc) percifyDocs
         = [8, 8, 8, 8, 8, 8, 8, 8, 8, 8]
   \<and> docs_loop toLowerCase_ascii (toLowerCase_ascii []) percifyDocs (None, 0) = (Some doc_avatar, 8)
   \<and> snd (researchWeb toLowerCase_ascii [] s) = render_result [] doc_avatar
   \<and> sourceUrl (snd (researchWeb toLowerCase_ascii [] s))
        = ascii ''https://docs.percify.io'' @ ascii ''/docs/avatar-guide''
   \<and> title (doc_avatar) = ascii ''Avatar Setup Guide''
   \<and> render_result [] doc_avatar \<noteq> render_result [] doc_getting_started"
proof -
  have keys: "map fst percifyDocs \<noteq> [] \<and> [] \<notin> set (map fst percifyDocs)"
    by (simp add: percifyDocs_def ascii_def)
  have scores: "map (\<lambda>(key, doc). entry_score lc [] key doc) percifyDocs
     = [8, 8, 8, 8, 8, 8, 8, 8, 8, 8]" for lc
    by (simp add: percifyDocs_def entry_score_empty ascii_def)
  have loop: "docs_loop lc [] percifyDocs (None, 0) = (Some doc_avatar, 8)" for lc
    by (simp add: percifyDocs_def entry_score_empty ascii_def Let_def)
  have res: "snd (researchWeb lc [] s) = render_result [] doc_avatar" if "lc [] = []" for lc
    using that loop [of lc] by (simp add: researchWeb_def Let_def)
  have lower: "toLowerCase_ascii [] = []"
    by (simp add: toLowerCase_ascii_def)
  have url: "sourceUrl (render_result [] doc_avatar)
               = ascii ''https://docs.percify.io'' @ ascii ''/docs/avatar-guide''"
    by (simp add: render_result_def doc_avatar_def)
  have ttl: "title (doc_avatar) = ascii ''Avatar Setup Guide''"
    by (simp add: doc_avatar_def)
  have "sourceUrl (render_result [] doc_getting_started) \<noteq> sourceUrl (render_result [] doc_avatar)"
    by (simp add: render_result_def doc_avatar_def doc_getting_started_def ascii_def)
  then have ne: "render_result [] doc_avatar \<noteq> render_result [] doc_getting_started"
    by auto
  let ?lc = "\<lambda>t. if t = [] then [] else toLowerCase t"
  have p: "?lc [] = []" by simp
  have g1: "map (\<lambda>(key, doc). entry_score ?lc (?lc []) key doc) percifyDocs
         = [8, 8, 8, 8, 8, 8, 8, 8, 8, 8]"
    using scores [of ?lc] by (simp only: p)
  have g2: "docs_loop ?lc (?lc []) percifyDocs (None, 0) = (Some doc_avatar, 8)"
    using loop [of ?lc] by (simp only: p)
  have g3: "snd (researchWeb ?lc [] s) = render_result [] doc_avatar"
    using p by (rule res)
  have a1: "map (\<lambda>(key, doc). entry_score toLowerCase_ascii (toLowerCase_ascii []) key doc) percifyDocs
         = [8, 8, 8, 8, 8, 8, 8, 8, 8, 8]"
    using scores [of toLowerCase_ascii] by (simp only: lower)
  have a2: "docs_loop toLowerCase_ascii (toLowerCase_ascii []) percifyDocs (None, 0) = (Some doc_avatar, 8)"
    using loop [of toLowerCase_ascii] by (simp only: lower)
  have a3: "snd (researchWeb toLowerCase_ascii [] s) = render_result [] doc_avatar"
    using lower by (rule res)
  have a4: "sourceUrl (snd (researchWeb toLowerCase_ascii [] s))
        = ascii ''https://docs.percify.io'' @ ascii ''/docs/avatar-guide''"
    by (simp only: a3 url)
  show ?thesis
    unfolding Let_def using g1 g2 g3 a1 a2 a3 a4 ttl ne by blast
qed

section \<open>Properties of the context builder\<close>

lemma memories_loop_concat:
  "memories_loop fmt ms ctx =
     ctx @ concat (map (\<lambda>mem. ''- ['' @ type_name (mem_type mem) @ ''] '' @ content mem
                               @ '' ('' @ fmt (createdAt mem) @ '')\<newline>'') ms)"
  by (induction ms arbitrary: ctx) simp_all

lemma slice_last_Nil_iff: "0 < n \<Longrightarrow> slice_last n xs = [] \<longleftrightarrow> xs = []"
  by (cases xs) (auto simp: slice_last_def)

text \<open>\<open>join\<close> puts the separator before every element but the first.\<close>

lemma join_concat: "join sep (x # xs) = x @ concat (map ((@) sep) xs)"
  by (induction xs arbitrary: x) simp_all

lemma buildContextString_blocks:
  "buildContextString fmt s =
     ''## Current Avatar State\<newline>''
           @ (case avatar s of
                None \<Rightarrow> ''- No avatar profile set yet. The user can create one.\<newline>''
              | Some a \<Rightarrow>
                  ''- Name: '' @ displayName a @ ''\<newline>''
                  @ ''- Bio: '' @ (if bio a = [] then ''Not set'' else bio a) @ ''\<newline>''
                  @ ''- Tone: ''
                  @ (case tone a of Casual \<Rightarrow> ''casual'' | Professional \<Rightarrow> ''professional''
                     | Playful \<Rightarrow> ''playful'' | Technical \<Rightarrow> ''technical'')
                  @ ''\<newline>''
                  @ ''- Expertise: ''
                  @ (case expertiseTags a of
                       [] \<Rightarrow> ''None specified''
                     | tag # tags \<Rightarrow> tag @ concat (map ((@) '', '') tags))
                  @ ''\<newline>'')
           @ ''\<newline>## Recent Memories\<newline>''
           @ (if memories s = [] then ''- No memories stored yet.\<newline>''
              else concat (map (\<lambda>mem. ''- [''
             @ (case mem_type mem of Task \<Rightarrow> ''task'' | Preference \<Rightarrow> ''preference'' | Note \<Rightarrow> ''note'')
             @ ''] '' @ content mem @ '' ('' @ fmt (createdAt mem) @ '')\<newline>'') (slice_last 3 (memories s))))"
proof -
  have empty: "slice_last 3 (memories s) = [] \<longleftrightarrow> memories s = []"
    by (rule slice_last_Nil_iff) simp
  have names: "type_name ty = (case ty of Task \<Rightarrow> ''task'' | Preference \<Rightarrow> ''preference'' | Note \<Rightarrow> ''note'')"
    for ty by (simp add: type_name_def)
  show ?thesis
  proof (cases "avatar s")
    case None
    then show ?thesis
      using empty by (simp add: buildContextString_def Let_def memories_loop_concat names)
  next
    case (Some a)
    then show ?thesis
      using empty
      by (simp add: buildContextString_def Let_def memories_loop_concat names or_string_def
          tone_name_def join_concat split: list.splits)
  qed
qed

lemma buildContextString_cong:
  assumes "avatar s' = avatar s" and "slice_last 3 (memories s') = slice_last 3 (memories s)"
  shows "buildContextString fmt s' = buildContextString fmt s"
  using assms by (simp add: buildContextString_def Let_def)

text \<open>The line of the fixed text that the tone and its directive complete.\<close>

lemma prompt_head_ends:
  \<open>drop (length prompt_head - 30) prompt_head = ''- Maintain the avatar's tone (''\<close>
  by (simp add: prompt_head_def)

text \<open>
  Claim C8, as the code has it. The prompt is assembled from the state, from the
  schedule prompt, which \<open>getSystemPrompt\<close> computes from the clock on every assembly,
  and from the date rendering of the host. It is the fixed text, whose last line
  \<open>Maintain the avatar's tone (\<close> is completed by the tone and its directive, the tone
  being that of the avatar and \<open>casual\<close> when there is none; then the schedule prompt;
  then the context block, which ends the prompt. The block lists the avatar's name,
  bio (or \<open>Not set\<close>), tone and expertise tags joined by commas (or \<open>None specified\<close>),
  or says that no profile is set; then one line for each of the last three memories
  (all of them while there are fewer than three), with its type, content and rendered
  date, or the line \<open>No memories stored yet\<close> when there are none. With the same
  schedule prompt and the same date rendering, two states that agree on the avatar and
  on the last three memories give the same prompt; two assemblies from the same state
  give the same prompt exactly when their schedule prompts are the same.
\<close>

theorem getSystemPrompt_assembly:
  "(let t = (case avatar s of None \<Rightarrow> Casual | Some a \<Rightarrow> tone a);
        recent = slice_last 3 (memories s);
        directive = (\<lambda>t. case t of
             Casual \<Rightarrow> ''casual): Be friendly, relaxed, and approachable. Use conversational language.''
           | Professional \<Rightarrow> ''professional): Be formal, precise, and business-like. Maintain a professional demeanor.''
           | Playful \<Rightarrow> ''playful): Be fun, energetic, and use humor when appropriate. Keep things light.''
           | Technical \<Rightarrow> ''technical): Be detailed, accurate, and use technical terminology. Focus on precision.'');
        line = (\<lambda>mem. ''- [''
             @ (case mem_type mem of Task \<Rightarrow> ''task'' | Preference \<Rightarrow> ''preference'' | Note \<Rightarrow> ''note'')
             @ ''] '' @ content mem @ '' ('' @ fmt (createdAt mem) @ '')\<newline>'');
        block =
           ''## Current Avatar State\<newline>''
           @ (case avatar s of
                None \<Rightarrow> ''- No avatar profile set yet. The user can create one.\<newline>''
              | Some a \<Rightarrow>
                  ''- Name: '' @ displayName a @ ''\<newline>''
                  @ ''- Bio: '' @ (if bio a = [] then ''Not set'' else bio a) @ ''\<newline>''
                  @ ''- Tone: ''
                  @ (case tone a of Casual \<Rightarrow> ''casual'' | Professional \<Rightarrow> ''professional''
                     | Playful \<Rightarrow> ''playful'' | Technical \<Rightarrow> ''technical'')
                  @ ''\<newline>''
                  @ ''- Expertise: ''
                  @ (case expertiseTags a of
                       [] \<Rightarrow> ''None specified''
                     | tag # tags \<Rightarrow> tag @ concat (map ((@) '', '') tags))
                  @ ''\<newline>'')
           @ ''\<newline>## Recent Memories\<newline>''
           @ (if memories s = [] then ''- No memories stored yet.\<newline>''
              else concat (map line recent))
    in getSystemPrompt sched fmt s =
         prompt_head @ directive t @ prompt_rest @ sched @ ''\<newline>\<newline>'' @ block
       \<and> buildContextString fmt s = block
       \<and> drop (length prompt_head - 30) prompt_head = ''- Maintain the avatar's tone (''
       \<and> length recent = min 3 (length (memories s))
       \<and> (\<exists>older. memories s = older @ recent)
       \<and> (\<forall>s'. avatar s' = avatar s \<and> slice_last 3 (memories s') = recent \<longrightarrow>
              getSystemPrompt sched fmt s' = getSystemPrompt sched fmt s)
       \<and> (\<forall>sched'. (getSystemPrompt sched' fmt s = getSystemPrompt sched fmt s) = (sched' = sched)))"
proof -
  let ?t = "case avatar s of None \<Rightarrow> Casual | Some a \<Rightarrow> tone a"
  let ?directive = "(\<lambda>t. case t of
             Casual \<Rightarrow> ''casual): Be friendly, relaxed, and approachable. Use conversational language.''
           | Professional \<Rightarrow> ''professional): Be formal, precise, and business-like. Maintain a professional demeanor.''
           | Playful \<Rightarrow> ''playful): Be fun, energetic, and use humor when appropriate. Keep things light.''
           | Technical \<Rightarrow> ''technical): Be detailed, accurate, and use technical terminology. Focus on precision.'')"
  have tone: "or_truthy (map_option tone (avatar s)) Casual = ?t"
    by (simp add: or_truthy_def split: option.splits)
  have dir: "tone_name t @ ''): '' @ toneInstructions t = ?directive t" for t
    by (cases t) (simp_all add: tone_name_def toneInstructions_def)
  have "getSystemPrompt sched fmt s =
         prompt_head @ (tone_name ?t @ ''): '' @ toneInstructions ?t) @ prompt_rest
           @ sched @ ''\<newline>\<newline>'' @ buildContextString fmt s"
    by (simp only: getSystemPrompt_def Let_def tone append_assoc)
  then have prompt: "getSystemPrompt sched fmt s =
         prompt_head @ ?directive ?t @ prompt_rest
           @ sched @ ''\<newline>\<newline>'' @ buildContextString fmt s"
    by (simp only: dir)
  have len: "length (slice_last 3 (memories s)) = min 3 (length (memories s))"
    by (rule length_slice_last)
  have older: "\<exists>older. memories s = older @ slice_last 3 (memories s)"
    using slice_last_suffix [of "memories s" 3] by metis
  have same: "getSystemPrompt sched fmt s' = getSystemPrompt sched fmt s"
    if "avatar s' = avatar s \<and> slice_last 3 (memories s') = slice_last 3 (memories s)" for s'
    using that buildContextString_cong [of s' s fmt] by (simp add: getSystemPrompt_def Let_def)
  have clock: "(getSystemPrompt sched' fmt s = getSystemPrompt sched fmt s) = (sched' = sched)"
    for sched'
    by (simp add: getSystemPrompt_def Let_def)
  show ?thesis
    unfolding Let_def
    apply (intro conjI allI impI)
    subgoal by (simp only: prompt buildContextString_blocks)
    subgoal by (rule buildContextString_blocks)
    subgoal by (rule prompt_head_ends)
    subgoal by (rule len)
    subgoal by (rule older)
    subgoal for s' by (rule same)
    subgoal for sched' by (rule clock)
    done
qed

text \<open>
  The theorem at a state with an avatar and four memories, with a schedule prompt and
  with the first ten characters of the time stamp for the date: the whole prompt, as
  the template of the source renders it, and the same prompt from the state that has
  only the last three memories.
\<close>

theorem getSystemPrompt_assembly_witness:
  \<open>getSystemPrompt
      (''[Schedule Parser Component]\<newline>''
          @ ''Current time: Mon, 02 Nov 2026 10:00:00 GMT'')
      (take 10)
      \<lparr>avatar = Some \<lparr>avatar_id = ''g1'', displayName = ''Ada'', bio = '''', tone = Playful,
                         expertiseTags = [''TypeScript'', ''React'']\<rparr>,
        memories = [\<lparr>mem_id = ''m1'', createdAt = ''2026-10-30T09:00:00.000Z'', mem_type = Note, content = ''likes tea''\<rparr>,
          \<lparr>mem_id = ''m2'', createdAt = ''2026-10-31T09:00:00.000Z'', mem_type = Task, content = ''write the report''\<rparr>,
          \<lparr>mem_id = ''m3'', createdAt = ''2026-11-01T09:00:00.000Z'', mem_type = Preference, content = ''prefers dark mode''\<rparr>,
          \<lparr>mem_id = ''m4'', createdAt = ''2026-11-02T09:00:00.000Z'', mem_type = Note, content = ''meeting at 3pm''\<rparr>]\<rparr>
   = ''You are Percify Avatar Co-Pilot, a friendly AI assistant that remembers each user's persona and preferences.\<newline>''
     @ ''\<newline>''
     @ ''## IMPORTANT: Be Helpful and Conversational\<newline>''
     @ ''- ALWAYS respond helpfully to ANY message, even simple greetings like "hey" or "hello"\<newline>''
     @ ''- For greetings, introduce yourself warmly and explain what you can do\<newline>''
     @ ''- NEVER ask for "more details" unless absolutely necessary - be proactive and helpful\<newline>''
     @ ''- If unsure what the user wants, offer suggestions instead of asking for clarification\<newline>''
     @ ''\<newline>''
     @ ''## Your Capabilities\<newline>''
     @ ''1. **Avatar Setup**: Help users create their AI persona (name, bio, tone, expertise)\<newline>''
     @ ''2. **Memory**: Remember preferences, tasks, and notes for the user\<newline>''
     @ ''3. **Research**: Look up information from docs.percify.io (official Percify documentation)\<newline>''
     @ ''4. **Chat**: Have friendly conversations\<newline>''
     @ ''\<newline>''
     @ ''## How to Respond\<newline>''
     @ ''- For "hey", "hello", "hi": Greet warmly and introduce your capabilities\<newline>''
     @ ''- For "create avatar", "set up avatar", etc.: Use the saveAvatarProfile tool to help them create one\<newline>''
     @ ''- For "remember X", "note that X": Use the saveMemory tool\<newline>''
     @ ''- For "research X", "look up X", "what is percify", "how does X work": Use the researchWeb tool to search docs.percify.io\<newline>''
     @ ''- For questions about Percify features: ALWAYS use researchWeb to fetch from docs.percify.io\<newline>''
     @ ''- Maintain the avatar's tone (playful): Be fun, energetic, and use humor when appropriate. Keep things light.\<newline>''
     @ ''\<newline>''
     @ ''## Example Responses\<newline>''
     @ ''- User: "hey" ''
     @ [CHR 0xE2, CHR 0x86, CHR 0x92]
     @ '' "Hey there! ''
     @ [CHR 0xF0, CHR 0x9F, CHR 0x91, CHR 0x8B]
     @ '' I'm Percify, your AI co-pilot! I can help you create a personalized avatar, remember your preferences, and look up our docs. Want to set up your avatar? Just tell me your name and what kind of tone you prefer (casual, professional, playful, or technical)!"\<newline>''
     @ ''- User: "create an avatar" ''
     @ [CHR 0xE2, CHR 0x86, CHR 0x92]
     @ '' Use saveAvatarProfile tool with a friendly default, then confirm\<newline>''
     @ ''- User: "I prefer TypeScript" ''
     @ [CHR 0xE2, CHR 0x86, CHR 0x92]
     @ '' Use saveMemory tool with type "preference"\<newline>''
     @ ''- User: "what is percify" ''
     @ [CHR 0xE2, CHR 0x86, CHR 0x92]
     @ '' Use researchWeb tool to fetch from docs.percify.io\<newline>''
     @ ''- User: "how do memories work" ''
     @ [CHR 0xE2, CHR 0x86, CHR 0x92]
     @ '' Use researchWeb tool with query "memory"\<newline>''
     @ ''\<newline>''
     @ ''## Tools Available\<newline>''
     @ ''- saveAvatarProfile: Set name, bio, tone (casual/professional/playful/technical), expertiseTags\<newline>''
     @ ''- saveMemory: Store preferences, tasks, or notes  \<newline>''
     @ ''- researchWeb: Search docs.percify.io for documentation on Percify features\<newline>''
     @ ''\<newline>''
     @ ''[Schedule Parser Component]\<newline>''
     @ ''Current time: Mon, 02 Nov 2026 10:00:00 GMT\<newline>''
     @ ''\<newline>''
     @ ''## Current Avatar State\<newline>''
     @ ''- Name: Ada\<newline>''
     @ ''- Bio: Not set\<newline>''
     @ ''- Tone: playful\<newline>''
     @ ''- Expertise: TypeScript, React\<newline>''
     @ ''\<newline>''
     @ ''## Recent Memories\<newline>''
     @ ''- [task] write the report (2026-10-31)\<newline>''
     @ ''- [preference] prefers dark mode (2026-11-01)\<newline>''
     @ ''- [note] meeting at 3pm (2026-11-02)\<newline>''
   \<and> getSystemPrompt
      (''[Schedule Parser Component]\<newline>''
          @ ''Current time: Mon, 02 Nov 2026 10:00:00 GMT'')
      (take 10)
      \<lparr>avatar = Some \<lparr>avatar_id = ''g1'', displayName = ''Ada'', bio = '''', tone = Playful,
                         expertiseTags = [''TypeScript'', ''React'']\<rparr>,
        memories = [\<lparr>mem_id = ''m2'', createdAt = ''2026-10-31T09:00:00.000Z'', mem_type = Task, content = ''write the report''\<rparr>,
          \<lparr>mem_id = ''m3'', createdAt = ''2026-11-01T09:00:00.000Z'', mem_type = Preference, content = ''prefers dark mode''\<rparr>,
          \<lparr>mem_id = ''m4'', createdAt = ''2026-11-02T09:00:00.000Z'', mem_type = Note, content = ''meeting at 3pm''\<rparr>]\<rparr>
   = getSystemPrompt
      (''[Schedule Parser Component]\<newline>''
          @ ''Current time: Mon, 02 Nov 2026 10:00:00 GMT'')
      (take 10)
      \<lparr>avatar = Some \<lparr>avatar_id = ''g1'', displayName = ''Ada'', bio = '''', tone = Playful,
                         expertiseTags = [''TypeScript'', ''React'']\<rparr>,
        memories = [\<lparr>mem_id = ''m1'', createdAt = ''2026-10-30T09:00:00.000Z'', mem_type = Note, content = ''likes tea''\<rparr>,
          \<lparr>mem_id = ''m2'', createdAt = ''2026-10-31T09:00:00.000Z'', mem_type = Task, content = ''write the report''\<rparr>,
          \<lparr>mem_id = ''m3'', createdAt = ''2026-11-01T09:00:00.000Z'', mem_type = Preference, content = ''prefers dark mode''\<rparr>,
          \<lparr>mem_id = ''m4'', createdAt = ''2026-11-02T09:00:00.000Z'', mem_type = Note, content = ''meeting at 3pm''\<rparr>]\<rparr>\<close>
proof -
  note asm = getSystemPrompt_assembly [where
      s = \<open>\<lparr>avatar = Some \<lparr>avatar_id = ''g1'', displayName = ''Ada'', bio = '''', tone = Playful,
                         expertiseTags = [''TypeScript'', ''React'']\<rparr>,
        memories = [\<lparr>mem_id = ''m1'', createdAt = ''2026-10-30T09:00:00.000Z'', mem_type = Note, content = ''likes tea''\<rparr>,
          \<lparr>mem_id = ''m2'', createdAt = ''2026-10-31T09:00:00.000Z'', mem_type = Task, content = ''write the report''\<rparr>,
          \<lparr>mem_id = ''m3'', createdAt = ''2026-11-01T09:00:00.000Z'', mem_type = Preference, content = ''prefers dark mode''\<rparr>,
          \<lparr>mem_id = ''m4'', createdAt = ''2026-11-02T09:00:00.000Z'', mem_type = Note, content = ''meeting at 3pm''\<rparr>]\<rparr>\<close>
      and sched = \<open>''[Schedule Parser Component]\<newline>''
          @ ''Current time: Mon, 02 Nov 2026 10:00:00 GMT''\<close>
      and fmt = \<open>(take 10)\<close>, unfolded Let_def]
  have whole: \<open>getSystemPrompt
      (''[Schedule Parser Component]\<newline>''
          @ ''Current time: Mon, 02 Nov 2026 10:00:00 GMT'')
      (take 10)
      \<lparr>avatar = Some \<lparr>avatar_id = ''g1'', displayName = ''Ada'', bio = '''', tone = Playful,
                         expertiseTags = [''TypeScript'', ''React'']\<rparr>,
        memories = [\<lparr>mem_id = ''m1'', createdAt = ''2026-10-30T09:00:00.000Z'', mem_type = Note, content = ''likes tea''\<rparr>,
          \<lparr>mem_id = ''m2'', createdAt = ''2026-10-31T09:00:00.000Z'', mem_type = Task, content = ''write the report''\<rparr>,
          \<lparr>mem_id = ''m3'', createdAt = ''2026-11-01T09:00:00.000Z'', mem_type = Preference, content = ''prefers dark mode''\<rparr>,
          \<lparr>mem_id = ''m4'', createdAt = ''2026-11-02T09:00:00.000Z'', mem_type = Note, content = ''meeting at 3pm''\<rparr>]\<rparr>
   = ''You are Percify Avatar Co-Pilot, a friendly AI assistant that remembers each user's persona and preferences.\<newline>''
     @ ''\<newline>''
     @ ''## IMPORTANT: Be Helpful and Conversational\<newline>''
     @ ''- ALWAYS respond helpfully to ANY message, even simple greetings like "hey" or "hello"\<newline>''
     @ ''- For greetings, introduce yourself warmly and explain what you can do\<newline>''
     @ ''- NEVER ask for "more details" unless absolutely necessary - be proactive and helpful\<newline>''
     @ ''- If unsure what the user wants, offer suggestions instead of asking for clarification\<newline>''
     @ ''\<newline>''
     @ ''## Your Capabilities\<newline>''
     @ ''1. **Avatar Setup**: Help users create their AI persona (name, bio, tone, expertise)\<newline>''
     @ ''2. **Memory**: Remember preferences, tasks, and notes for the user\<newline>''
     @ ''3. **Research**: Look up information from docs.percify.io (official Percify documentation)\<newline>''
     @ ''4. **Chat**: Have friendly conversations\<newline>''
     @ ''\<newline>''
     @ ''## How to Respond\<newline>''
     @ ''- For "hey", "hello", "hi": Greet warmly and introduce your capabilities\<newline>''
     @ ''- For "create avatar", "set up avatar", etc.: Use the saveAvatarProfile tool to help them create one\<newline>''
     @ ''- For "remember X", "note that X": Use the saveMemory tool\<newline>''
     @ ''- For "research X", "look up X", "what is percify", "how does X work": Use the researchWeb tool to search docs.percify.io\<newline>''
     @ ''- For questions about Percify features: ALWAYS use researchWeb to fetch from docs.percify.io\<newline>''
     @ ''- Maintain the avatar's tone (playful): Be fun, energetic, and use humor when appropriate. Keep things light.\<newline>''
     @ ''\<newline>''
     @ ''## Example Responses\<newline>''
     @ ''- User: "hey" ''
     @ [CHR 0xE2, CHR 0x86, CHR 0x92]
     @ '' "Hey there! ''
     @ [CHR 0xF0, CHR 0x9F, CHR 0x91, CHR 0x8B]
     @ '' I'm Percify, your AI co-pilot! I can help you create a personalized avatar, remember your preferences, and look up our docs. Want to set up your avatar? Just tell me your name and what kind of tone you prefer (casual, professional, playful, or technical)!"\<newline>''
     @ ''- User: "create an avatar" ''
     @ [CHR 0xE2, CHR 0x86, CHR 0x92]
     @ '' Use saveAvatarProfile tool with a friendly default, then confirm\<newline>''
     @ ''- User: "I prefer TypeScript" ''
     @ [CHR 0xE2, CHR 0x86, CHR 0x92]
     @ '' Use saveMemory tool with type "preference"\<newline>''
     @ ''- User: "what is percify" ''
     @ [CHR 0xE2, CHR 0x86, CHR 0x92]
     @ '' Use researchWeb tool to fetch from docs.percify.io\<newline>''
     @ ''- User: "how do memories work" ''
     @ [CHR 0xE2, CHR 0x86, CHR 0x92]
     @ '' Use researchWeb tool with query "memory"\<newline>''
     @ ''\<newline>''
     @ ''## Tools Available\<newline>''
     @ ''- saveAvatarProfile: Set name, bio, tone (casual/professional/playful/technical), expertiseTags\<newline>''
     @ ''- saveMemory: Store preferences, tasks, or notes  \<newline>''
     @ ''- researchWeb: Search docs.percify.io for documentation on Percify features\<newline>''
     @ ''\<newline>''
     @ ''[Schedule Parser Component]\<newline>''
     @ ''Current time: Mon, 02 Nov 2026 10:00:00 GMT\<newline>''
     @ ''\<newline>''
     @ ''## Current Avatar State\<newline>''
     @ ''- Name: Ada\<newline>''
     @ ''- Bio: Not set\<newline>''
     @ ''- Tone: playful\<newline>''
     @ ''- Expertise: TypeScript, React\<newline>''
     @ ''\<newline>''
     @ ''## Recent Memories\<newline>''
     @ ''- [task] write the report (2026-10-31)\<newline>''
     @ ''- [preference] prefers dark mode (2026-11-01)\<newline>''
     @ ''- [note] meeting at 3pm (2026-11-02)\<newline>''\<close>
    using asm [THEN conjunct1]
    by (simp add: slice_last_def prompt_head_def prompt_rest_def)
  have same: \<open>getSystemPrompt
      (''[Schedule Parser Component]\<newline>''
          @ ''Current time: Mon, 02 Nov 2026 10:00:00 GMT'')
      (take 10)
      \<lparr>avatar = Some \<lparr>avatar_id = ''g1'', displayName = ''Ada'', bio = '''', tone = Playful,
                         expertiseTags = [''TypeScript'', ''React'']\<rparr>,
        memories = [\<lparr>mem_id = ''m2'', createdAt = ''2026-10-31T09:00:00.000Z'', mem_type = Task, content = ''write the report''\<rparr>,
          \<lparr>mem_id = ''m3'', createdAt = ''2026-11-01T09:00:00.000Z'', mem_type = Preference, content = ''prefers dark mode''\<rparr>,
          \<lparr>mem_id = ''m4'', createdAt = ''2026-11-02T09:00:00.000Z'', mem_type = Note, content = ''meeting at 3pm''\<rparr>]\<rparr>
   = getSystemPrompt
      (''[Schedule Parser Component]\<newline>''
          @ ''Current time: Mon, 02 Nov 2026 10:00:00 GMT'')
      (take 10)
      \<lparr>avatar = Some \<lparr>avatar_id = ''g1'', displayName = ''Ada'', bio = '''', tone = Playful,
                         expertiseTags = [''TypeScript'', ''React'']\<rparr>,
        memories = [\<lparr>mem_id = ''m1'', createdAt = ''2026-10-30T09:00:00.000Z'', mem_type = Note, content = ''likes tea''\<rparr>,
          \<lparr>mem_id = ''m2'', createdAt = ''2026-10-31T09:00:00.000Z'', mem_type = Task, content = ''write the report''\<rparr>,
          \<lparr>mem_id = ''m3'', createdAt = ''2026-11-01T09:00:00.000Z'', mem_type = Preference, content = ''prefers dark mode''\<rparr>,
          \<lparr>mem_id = ''m4'', createdAt = ''2026-11-02T09:00:00.000Z'', mem_type = Note, content = ''meeting at 3pm''\<rparr>]\<rparr>\<close>
    by (rule asm [THEN conjunct2, THEN conjunct2, THEN conjunct2, THEN conjunct2, THEN conjunct2,
          THEN conjunct1, rule_format])
       (simp add: slice_last_def)
  show ?thesis
    using whole same by (rule conjI)
qed

text \<open>
  Claim C8 as stated fails: the prompt is not determined by the state. The source
  passes \<open>new Date()\<close> to \<open>getSchedulePrompt\<close> on every assembly, so two assemblies
  from the same state, here the initial one, a second apart, carry different schedule
  prompts and are different strings.
\<close>

theorem getSystemPrompt_clock_counterexample:
  "getSystemPrompt ''Current time: Mon, 02 Nov 2026 10:00:00 GMT'' (take 10) initialState
     \<noteq> getSystemPrompt ''Current time: Mon, 02 Nov 2026 10:00:01 GMT'' (take 10) initialState"
  by (simp add: getSystemPrompt_def Let_def)

section \<open>Properties of the message sanitizer\<close>

lemma result_ids_append: "result_ids (xs @ ys) = result_ids xs @ result_ids ys"
  by (induction xs rule: result_ids.induct) simp_all

lemma result_ids_unresolved:
  "\<forall>r \<in> set xs. unresolved h r \<Longrightarrow> result_ids xs = []"
  by (induction xs rule: result_ids.induct) (auto simp: unresolved_def)

lemma sanitize_split:
  "h = sanitize h @ rev (takeWhile (unresolved h) (rev h))"
proof -
  have "rev (takeWhile (unresolved h) (rev h) @ dropWhile (unresolved h) (rev h)) = rev (rev h)"
    by (simp only: takeWhile_dropWhile_id)
  then have "rev (dropWhile (unresolved h) (rev h)) @ rev (takeWhile (unresolved h) (rev h)) = h"
    by (simp only: rev_append rev_rev_ident)
  then show ?thesis
    by (simp only: sanitize_def)
qed

lemma sanitize_dropped:
  "\<forall>r \<in> set (rev (takeWhile (unresolved h) (rev h))). unresolved h r"
  by (auto dest: set_takeWhileD)

lemma result_ids_sanitize: "result_ids (sanitize h) = result_ids h"
proof -
  have "result_ids h = result_ids (sanitize h) @ result_ids (rev (takeWhile (unresolved h) (rev h)))"
    using sanitize_split [of h] result_ids_append by metis
  moreover have "result_ids (rev (takeWhile (unresolved h) (rev h))) = []"
    using sanitize_dropped by (rule result_ids_unresolved)
  ultimately show ?thesis by simp
qed

lemma unresolved_sanitize: "unresolved (sanitize h) = unresolved h"
  by (rule ext) (simp add: unresolved_def result_ids_sanitize split: HistoryRecord.splits)

lemma sanitize_last: "sanitize h \<noteq> [] \<Longrightarrow> \<not> unresolved h (last (sanitize h))"
proof -
  assume ne: "sanitize h \<noteq> []"
  then have d: "dropWhile (unresolved h) (rev h) \<noteq> []"
    by (simp add: sanitize_def)
  then have "\<not> unresolved h (hd (dropWhile (unresolved h) (rev h)))"
    by (rule hd_dropWhile)
  moreover have "last (sanitize h) = hd (dropWhile (unresolved h) (rev h))"
    using d by (simp add: sanitize_def last_rev)
  ultimately show ?thesis by simp
qed

text \<open>
  Claim C9, for the sanitizer as the specification describes it. Sanitizing twice is
  sanitizing once. The sanitized history is the history without a final segment made
  only of unresolved tool invocations, so nothing is reordered; every record that is
  not an unresolved invocation is kept, in order; and the sanitized history, when not
  empty, does not end in an unresolved invocation.
\<close>

theorem sanitize_idempotent:
  "sanitize (sanitize h) = sanitize h
   \<and> (\<exists>dropped. h = sanitize h @ dropped \<and> (\<forall>r \<in> set dropped. unresolved h r))
   \<and> filter (\<lambda>r. \<not> unresolved h r) (sanitize h) = filter (\<lambda>r. \<not> unresolved h r) h
   \<and> (sanitize h = [] \<or> \<not> unresolved h (last (sanitize h)))"
proof -
  have idem: "sanitize (sanitize h) = sanitize h"
  proof -
    have "sanitize (sanitize h) = rev (dropWhile (unresolved h) (rev (sanitize h)))"
      by (simp add: sanitize_def [of "sanitize h"] unresolved_sanitize)
    also have "\<dots> = rev (dropWhile (unresolved h) (dropWhile (unresolved h) (rev h)))"
      by (simp add: sanitize_def)
    also have "\<dots> = sanitize h"
      by (simp add: sanitize_def)
    finally show ?thesis .
  qed
  have split: "\<exists>dropped. h = sanitize h @ dropped \<and> (\<forall>r \<in> set dropped. unresolved h r)"
    using sanitize_split [of h] sanitize_dropped [of h] by blast
  then obtain dropped where d: "h = sanitize h @ dropped" "\<forall>r \<in> set dropped. unresolved h r"
    by blast
  have "filter (\<lambda>r. \<not> unresolved h r) dropped = []"
    using d(2) by (simp add: filter_empty_conv)
  then have "filter (\<lambda>r. \<not> unresolved h r) (sanitize h @ dropped) = filter (\<lambda>r. \<not> unresolved h r) (sanitize h)"
    by simp
  then have keep: "filter (\<lambda>r. \<not> unresolved h r) (sanitize h) = filter (\<lambda>r. \<not> unresolved h r) h"
    using d(1) by simp
  have "sanitize h = [] \<or> \<not> unresolved h (last (sanitize h))"
    using sanitize_last by blast
  then show ?thesis
    using idem split keep by blast
qed

text \<open>
  The theorem at a history that ends in a call without result: the call is removed,
  the resolved call before it and its result stay, and a second pass changes nothing.
\<close>

theorem sanitize_idempotent_witness:
  "sanitize [ChatMessage ''user'' ''hi'', ToolInvocation ''c1'' ''saveMemory'',
             ToolResult ''c1'' ''ok'', ToolInvocation ''c2'' ''researchWeb'']
     = [ChatMessage ''user'' ''hi'', ToolInvocation ''c1'' ''saveMemory'', ToolResult ''c1'' ''ok'']
   \<and> sanitize (sanitize [ChatMessage ''user'' ''hi'', ToolInvocation ''c1'' ''saveMemory'',
             ToolResult ''c1'' ''ok'', ToolInvocation ''c2'' ''researchWeb''])
     = [ChatMessage ''user'' ''hi'', ToolInvocation ''c1'' ''saveMemory'', ToolResult ''c1'' ''ok'']"
proof -
  have run: "sanitize [ChatMessage ''user'' ''hi'', ToolInvocation ''c1'' ''saveMemory'',
             ToolResult ''c1'' ''ok'', ToolInvocation ''c2'' ''researchWeb'']
     = [ChatMessage ''user'' ''hi'', ToolInvocation ''c1'' ''saveMemory'', ToolResult ''c1'' ''ok'']"
    by (simp add: sanitize_def unresolved_def)
  show ?thesis
    using sanitize_idempotent [of "[ChatMessage ''user'' ''hi'', ToolInvocation ''c1'' ''saveMemory'',
             ToolResult ''c1'' ''ok'', ToolInvocation ''c2'' ''researchWeb'']"]
    by (simp only: run simp_thms)
qed

end

